theory Spec2Isabelle
  imports Complex_Main "HOL-Library.Char_ord" "HOL-Library.List_Lexorder"
begin

section \<open>Python preliminaries\<close>

text \<open>
  Python floats are modelled as \<^typ>\<open>real\<close> (exact arithmetic), Python \<open>str\<close> as
  \<^typ>\<open>string\<close>, and a raised exception as the \<open>Inl\<close> side of a sum.
\<close>

datatype py_error =
    ValueError string
  | TypeError
  | RuntimeError string
  | ZeroDivisionError
  | JSONDecodeError
  | OSError
  | UnicodeEncodeError
  | CacheError string

text \<open>\<open>str.lower()\<close> on the ASCII letters; every other character is kept.\<close>

definition lower_char :: "char \<Rightarrow> char" where
  "lower_char c =
     (case map_of (zip ''ABCDEFGHIJKLMNOPQRSTUVWXYZ'' ''abcdefghijklmnopqrstuvwxyz'') c of
        Some d \<Rightarrow> d
      | None \<Rightarrow> c)"

definition str_lower :: "string \<Rightarrow> string" where
  "str_lower s = map lower_char s"

text \<open>\<open>s.split(c)\<close>: the pieces of a string between the occurrences of a character.\<close>

fun split_on :: "char \<Rightarrow> string \<Rightarrow> string list" where
  "split_on c [] = [[]]"
| "split_on c (x # xs) =
     (if x = c then [] # split_on c xs
      else (case split_on c xs of [] \<Rightarrow> [[x]] | p # ps \<Rightarrow> (x # p) # ps))"


section \<open>geocoding.py: the cache key of NominatimGeocoder\<close>

text \<open>\<open>_cache_key\<close>: \<^verbatim>\<open>f"coords_{city.lower()}_{country.lower()}"\<close>.\<close>

definition geocoder_cache_key :: "string \<Rightarrow> string \<Rightarrow> string" where
  "geocoder_cache_key city country = ''coords_'' @ str_lower city @ ''_'' @ str_lower country"


section \<open>typography.py: the title font\<close>

text \<open>
  A matplotlib \<open>FontProperties\<close> object, reduced to the attributes the module sets.
  \<open>get_file()\<close> returns the \<open>fname\<close> the object was built with, or \<open>None\<close>.
\<close>

record FontProperties =
  fp_family :: "string option"
  fp_weight :: "string option"
  fp_fname :: "string option"
  fp_size :: "real option"

record FontSet =
  bold :: FontProperties
  regular :: FontProperties
  light :: FontProperties

definition fallback :: FontSet where
  "fallback =
     \<lparr>bold = \<lparr>fp_family = Some ''monospace'', fp_weight = Some ''bold'', fp_fname = None, fp_size = None\<rparr>,
      regular = \<lparr>fp_family = Some ''monospace'', fp_weight = Some ''normal'', fp_fname = None, fp_size = None\<rparr>,
      light = \<lparr>fp_family = Some ''monospace'', fp_weight = Some ''light'', fp_fname = None, fp_size = None\<rparr>\<rparr>"

text \<open>\<open>str(x)\<close> of an optional string: \<open>str(None)\<close> is the text \<open>None\<close>.\<close>

definition str_of_opt :: "string option \<Rightarrow> string" where
  "str_of_opt x = (case x of None \<Rightarrow> ''None'' | Some s \<Rightarrow> s)"

text \<open>
  \<open>get_city_font\<close>. Every \<open>FontProperties\<close> object has the method \<open>get_file\<close>, so the
  \<open>hasattr\<close> test of the source always takes its first branch.
\<close>

definition get_city_font :: "FontSet \<Rightarrow> string \<Rightarrow> real \<Rightarrow> FontProperties" where
  "get_city_font fonts city_name base_size =
     (let char_count = length city_name;
          adjusted_size =
            (if char_count > 10
             then (let scale_factor = 10 / real char_count
                   in max (base_size * scale_factor) 24)
             else base_size)
      in \<lparr>fp_family = None, fp_weight = None,
          fp_fname = Some (str_of_opt (fp_fname (bold fonts))),
          fp_size = Some adjusted_size\<rparr>)"


section \<open>theme.py: the Theme record\<close>

text \<open>
  A value read by \<open>json.load\<close>. The dataclass \<open>Theme\<close> checks no types when it is built, so
  a field of a theme that came from a file holds whatever JSON value the file gave it.
\<close>

datatype json =
    JNull
  | JBool bool
  | JInt int
  | JFloat real
  | JStr string
  | JArr "json list"
  | JObj "(string \<times> json) list"

record Theme =
  name :: json
  description :: json
  bg :: json
  text' :: json
  gradient_color :: json
  water :: json
  parks :: json
  road_motorway :: json
  road_primary :: json
  road_secondary :: json
  road_tertiary :: json
  road_residential :: json
  road_default :: json

text \<open>\<open>Theme(name=n, description=d)\<close>: every colour at the default the dataclass declares.\<close>

definition Theme_init :: "json \<Rightarrow> json \<Rightarrow> Theme" where
  "Theme_init n d =
     \<lparr>name = n, description = d,
      bg = JStr ''#FFFFFF'', text' = JStr ''#000000'', gradient_color = JStr ''#FFFFFF'',
      water = JStr ''#C0C0C0'', parks = JStr ''#F0F0F0'',
      road_motorway = JStr ''#0A0A0A'', road_primary = JStr ''#1A1A1A'',
      road_secondary = JStr ''#2A2A2A'', road_tertiary = JStr ''#3A3A3A'',
      road_residential = JStr ''#4A4A4A'', road_default = JStr ''#3A3A3A''\<rparr>"

text \<open>\<open>ThemeManager._default_theme\<close>.\<close>

definition default_theme :: Theme where
  "default_theme =
     Theme_init (JStr ''Feature-Based Shading'')
       (JStr ''Default theme with road hierarchy coloring'')"


section \<open>renderer.py: edge styling and crop limits\<close>

text \<open>
  The \<open>highway\<close> attribute of an edge: a string or a list of strings; \<open>None\<close> when the
  edge's data has no such key.
\<close>

datatype tag_value = TStr string | TList "string list"

text \<open>
  The first lines of both loops: \<^verbatim>\<open>data.get("highway", "unclassified")\<close>, then the first
  entry of a list (\<open>unclassified\<close> for an empty list).
\<close>

definition highway_of :: "tag_value option \<Rightarrow> string" where
  "highway_of d =
     (case d of
        None \<Rightarrow> ''unclassified''
      | Some (TStr s) \<Rightarrow> s
      | Some (TList l) \<Rightarrow> (case l of [] \<Rightarrow> ''unclassified'' | h # _ \<Rightarrow> h))"

text \<open>The body of the loop of \<open>_get_edge_colors\<close>, for one edge.\<close>

definition edge_color :: "Theme \<Rightarrow> tag_value option \<Rightarrow> json" where
  "edge_color theme d =
     (let highway = highway_of d in
      if highway \<in> set [''motorway'', ''motorway_link''] then road_motorway theme
      else if highway \<in> set [''trunk'', ''trunk_link'', ''primary'', ''primary_link'']
        then road_primary theme
      else if highway \<in> set [''secondary'', ''secondary_link''] then road_secondary theme
      else if highway \<in> set [''tertiary'', ''tertiary_link''] then road_tertiary theme
      else if highway \<in> set [''residential'', ''living_street'', ''unclassified'']
        then road_residential theme
      else road_default theme)"

definition get_edge_colors :: "tag_value option list \<Rightarrow> Theme \<Rightarrow> json list" where
  "get_edge_colors G theme = map (edge_color theme) G"

text \<open>The body of the loop of \<open>_get_edge_widths\<close>, for one edge.\<close>

definition edge_width :: "tag_value option \<Rightarrow> real" where
  "edge_width d =
     (let highway = highway_of d in
      if highway \<in> set [''motorway'', ''motorway_link''] then 1.2
      else if highway \<in> set [''trunk'', ''trunk_link'', ''primary'', ''primary_link'']
        then 1.0
      else if highway \<in> set [''secondary'', ''secondary_link''] then 0.8
      else if highway \<in> set [''tertiary'', ''tertiary_link''] then 0.6
      else 0.4)"

definition get_edge_widths :: "tag_value option list \<Rightarrow> real list" where
  "get_edge_widths G = map edge_width G"

text \<open>
  The six road tiers, and the branch of the colour chain a (normalised) tag takes.
\<close>

datatype tier = Motorway | Primary | Secondary | Tertiary | Residential | Default

definition edge_tier :: "string \<Rightarrow> tier" where
  "edge_tier highway =
     (if highway \<in> set [''motorway'', ''motorway_link''] then Motorway
      else if highway \<in> set [''trunk'', ''trunk_link'', ''primary'', ''primary_link'']
        then Primary
      else if highway \<in> set [''secondary'', ''secondary_link''] then Secondary
      else if highway \<in> set [''tertiary'', ''tertiary_link''] then Tertiary
      else if highway \<in> set [''residential'', ''living_street'', ''unclassified'']
        then Residential
      else Default)"

fun tier_color :: "Theme \<Rightarrow> tier \<Rightarrow> json" where
  "tier_color theme Motorway = road_motorway theme"
| "tier_color theme Primary = road_primary theme"
| "tier_color theme Secondary = road_secondary theme"
| "tier_color theme Tertiary = road_tertiary theme"
| "tier_color theme Residential = road_residential theme"
| "tier_color theme Default = road_default theme"

fun tier_width :: "tier \<Rightarrow> real" where
  "tier_width Motorway = 1.2"
| "tier_width Primary = 1.0"
| "tier_width Secondary = 0.8"
| "tier_width Tertiary = 0.6"
| "tier_width Residential = 0.4"
| "tier_width Default = 0.4"

text \<open>\<open>min(xs)\<close> and \<open>max(xs)\<close>: a \<open>ValueError\<close> on the empty list.\<close>

fun py_min :: "real list \<Rightarrow> py_error + real" where
  "py_min [] = Inl (ValueError ''min() arg is an empty sequence'')"
| "py_min (x # xs) = Inr (fold min xs x)"

fun py_max :: "real list \<Rightarrow> py_error + real" where
  "py_max [] = Inl (ValueError ''max() arg is an empty sequence'')"
| "py_max (x # xs) = Inr (fold max xs x)"

type_synonym limits = "(real \<times> real) \<times> (real \<times> real)"

text \<open>
  \<open>_get_crop_limits\<close>, from the node positions of the graph and the figure's size in
  inches. A division by zero is an error of the model (the source divides Python or numpy
  floats there).
\<close>

definition get_crop_limits :: "(real \<times> real) list \<Rightarrow> real \<times> real \<Rightarrow> py_error + limits" where
  "get_crop_limits nodes fig_size =
     (let xs = map fst nodes; ys = map snd nodes in
      (case py_min xs of Inl e \<Rightarrow> Inl e | Inr minx \<Rightarrow>
      (case py_max xs of Inl e \<Rightarrow> Inl e | Inr maxx \<Rightarrow>
      (case py_min ys of Inl e \<Rightarrow> Inl e | Inr miny \<Rightarrow>
      (case py_max ys of Inl e \<Rightarrow> Inl e | Inr maxy \<Rightarrow>
      (let x_range = maxx - minx;
           y_range = maxy - miny;
           (fig_width, fig_height) = fig_size
       in if fig_height = 0 then Inl ZeroDivisionError
          else (let desired_aspect = fig_width / fig_height
          in if y_range = 0 then Inl ZeroDivisionError
          else (let current_aspect = x_range / y_range;
                    center_x = (minx + maxx) / 2;
                    center_y = (miny + maxy) / 2
          in if current_aspect > desired_aspect then
               (let desired_x_range = y_range * desired_aspect
                in Inr ((center_x - desired_x_range / 2, center_x + desired_x_range / 2),
                        (miny, maxy)))
             else if current_aspect < desired_aspect then
               (let desired_y_range = x_range / desired_aspect
                in Inr ((minx, maxx),
                        (center_y - desired_y_range / 2, center_y + desired_y_range / 2)))
             else Inr ((minx, maxx), (miny, maxy))))))))))"


section \<open>theme.py: loading and validating themes\<close>

text \<open>
  What \<open>Theme.from_json\<close> finds at a path that exists: a file that cannot be opened or
  decoded, text that \<open>json.load\<close> rejects, or the value \<open>json.load\<close> returns. A
  JSON object is the list of the items of the \<open>dict\<close> built from it (distinct keys).
\<close>

datatype theme_file = Unreadable | Malformed | Parsed json

text \<open>The fields of the dataclass, the keyword arguments its constructor accepts.\<close>

definition field_names :: "string list" where
  "field_names =
     [''name'', ''description'', ''bg'', ''text'', ''gradient_color'', ''water'', ''parks'',
      ''road_motorway'', ''road_primary'', ''road_secondary'', ''road_tertiary'',
      ''road_residential'', ''road_default'']"

definition kwarg :: "(string \<times> json) list \<Rightarrow> string \<Rightarrow> json \<Rightarrow> json" where
  "kwarg kw k dflt = (case map_of kw k of None \<Rightarrow> dflt | Some v \<Rightarrow> v)"

text \<open>
  \<open>cls(**data)\<close> for a dict: a \<open>TypeError\<close> on a keyword that is no field and on a
  missing \<open>name\<close>; a field that is not given takes its default.
\<close>

definition Theme_of_kwargs :: "(string \<times> json) list \<Rightarrow> py_error + Theme" where
  "Theme_of_kwargs kw =
     (if \<not> list_all (\<lambda>k. k \<in> set field_names) (map fst kw) then Inl TypeError
      else (case map_of kw ''name'' of
              None \<Rightarrow> Inl TypeError
            | Some n \<Rightarrow>
                Inr \<lparr>name = n,
                     description = kwarg kw ''description'' (JStr ''''),
                     bg = kwarg kw ''bg'' (JStr ''#FFFFFF''),
                     text' = kwarg kw ''text'' (JStr ''#000000''),
                     gradient_color = kwarg kw ''gradient_color'' (JStr ''#FFFFFF''),
                     water = kwarg kw ''water'' (JStr ''#C0C0C0''),
                     parks = kwarg kw ''parks'' (JStr ''#F0F0F0''),
                     road_motorway = kwarg kw ''road_motorway'' (JStr ''#0A0A0A''),
                     road_primary = kwarg kw ''road_primary'' (JStr ''#1A1A1A''),
                     road_secondary = kwarg kw ''road_secondary'' (JStr ''#2A2A2A''),
                     road_tertiary = kwarg kw ''road_tertiary'' (JStr ''#3A3A3A''),
                     road_residential = kwarg kw ''road_residential'' (JStr ''#4A4A4A''),
                     road_default = kwarg kw ''road_default'' (JStr ''#3A3A3A'')\<rparr>))"

text \<open>\<open>Theme.from_json\<close>; \<open>cls(**data)\<close> raises \<open>TypeError\<close> when data is no dict.\<close>

definition from_json :: "theme_file \<Rightarrow> py_error + Theme" where
  "from_json f =
     (case f of
        Unreadable \<Rightarrow> Inl OSError
      | Malformed \<Rightarrow> Inl JSONDecodeError
      | Parsed (JObj kw) \<Rightarrow> Theme_of_kwargs kw
      | Parsed _ \<Rightarrow> Inl TypeError)"

text \<open>
  \<^verbatim>\<open>re.match(r"^#[0-9A-Fa-f]{6}$", color)\<close> on a string. In Python's \<open>re\<close> (no flags) \<open>$\<close>
  matches at the end of the string and also just before a newline that ends the string.
\<close>

definition is_hex_digit :: "char \<Rightarrow> bool" where
  "is_hex_digit c = (c \<in> set ''0123456789ABCDEFabcdef'')"

definition re_match_color :: "string \<Rightarrow> bool" where
  "re_match_color s =
     (case s of
        [] \<Rightarrow> False
      | c # rest \<Rightarrow>
          c = CHR ''#'' \<and> length (take 6 rest) = 6 \<and> list_all is_hex_digit (take 6 rest) \<and>
          (drop 6 rest = [] \<or> drop 6 rest = [CHR 0x0A]))"

text \<open>The list \<open>color_fields\<close> of \<open>Theme.validate\<close>, each name with its \<open>getattr\<close>.\<close>

definition color_fields :: "(string \<times> (Theme \<Rightarrow> json)) list" where
  "color_fields =
     [(''bg'', bg), (''text'', text'), (''gradient_color'', gradient_color),
      (''water'', water), (''parks'', parks), (''road_motorway'', road_motorway),
      (''road_primary'', road_primary), (''road_secondary'', road_secondary),
      (''road_tertiary'', road_tertiary), (''road_residential'', road_residential),
      (''road_default'', road_default)]"

text \<open>
  The loop of \<open>Theme.validate\<close>: \<open>re.match\<close> raises \<open>TypeError\<close> on a value that is no
  string; a string that does not match raises \<open>ValueError\<close> with the message of the source.
\<close>

fun validate_loop :: "(string \<times> (Theme \<Rightarrow> json)) list \<Rightarrow> Theme \<Rightarrow> py_error + unit" where
  "validate_loop [] self = Inr ()"
| "validate_loop ((field, getattr) # rest) self =
     (case getattr self of
        JStr color \<Rightarrow>
          if \<not> re_match_color color
          then Inl (ValueError (''Invalid color '' @ [CHR 0x27] @ color @ [CHR 0x27] @ '' for field '' @ [CHR 0x27] @ field @ [CHR 0x27]))
          else validate_loop rest self
      | _ \<Rightarrow> Inl TypeError)"

definition validate :: "Theme \<Rightarrow> py_error + unit" where
  "validate self = validate_loop color_fields self"


text \<open>
  The theme manager, with what it touches outside: the files \<open>stem.json\<close> of its themes
  directory, each keyed by its stem, and whether standard output accepts the text the
  manager prints (it does not, for example, when its encoding has no warning sign or
  check mark, the first character of the first message on every path).
\<close>

record ThemeManager =
  themes_dir :: "(string \<times> theme_file) list"
  stdout_ok :: bool

text \<open>\<open>list_themes\<close> sorts the paths of the directory (by file name) and returns the stems.\<close>

definition list_themes :: "ThemeManager \<Rightarrow> string list" where
  "list_themes self =
     map fst (sort_key (\<lambda>(stem, f). stem @ ''.json'') (themes_dir self))"

text \<open>
  \<open>theme_path.exists()\<close> for the path of a theme name, and the file it finds. Through
  Python 3.12 \<open>Path.exists\<close> returns \<open>False\<close> only for a missing file or directory and
  re-raises every other \<open>OSError\<close> of \<open>stat\<close>; the one modelled is the error for a path
  component longer than the 255 bytes a file name may have on Linux.
\<close>

definition theme_path_exists :: "ThemeManager \<Rightarrow> string \<Rightarrow> py_error + theme_file option" where
  "theme_path_exists self nm =
     (if list_ex (\<lambda>part. 255 < length part) (split_on (CHR ''/'') (nm @ ''.json''))
      then Inl OSError
      else Inr (map_of (themes_dir self) nm))"

text \<open>A \<open>print\<close> of the theme manager.\<close>

definition print_text :: "ThemeManager \<Rightarrow> py_error + unit" where
  "print_text self = (if stdout_ok self then Inr () else Inl UnicodeEncodeError)"

text \<open>
  \<open>ThemeManager.load_theme\<close>: the body of its \<open>try\<close> (load, validate, print the name),
  and the function, with the existence test before the \<open>try\<close> and the prints of the
  not-found branch and of the \<open>except Exception\<close> handler outside it.
\<close>

definition load_theme_try :: "ThemeManager \<Rightarrow> theme_file \<Rightarrow> py_error + Theme" where
  "load_theme_try self f =
     (case from_json f of
        Inl e \<Rightarrow> Inl e
      | Inr theme \<Rightarrow>
          (case validate theme of
             Inl e \<Rightarrow> Inl e
           | Inr u \<Rightarrow> (case print_text self of Inl e \<Rightarrow> Inl e | Inr u' \<Rightarrow> Inr theme)))"

definition load_theme :: "ThemeManager \<Rightarrow> string \<Rightarrow> py_error + Theme" where
  "load_theme self nm =
     (case theme_path_exists self nm of
        Inl e \<Rightarrow> Inl e
      | Inr None \<Rightarrow>
          (case print_text self of Inl e \<Rightarrow> Inl e | Inr u \<Rightarrow> Inr default_theme)
      | Inr (Some f) \<Rightarrow>
          (case load_theme_try self f of
             Inr theme \<Rightarrow> Inr theme
           | Inl e \<Rightarrow>
               (case print_text self of Inl e' \<Rightarrow> Inl e' | Inr u \<Rightarrow> Inr default_theme)))"


text \<open>
  The colour syntax in the words of the specification: \<open>#\<close>, then exactly six
  hexadecimal digits, and nothing else.
\<close>

definition spec_hex_color :: "string \<Rightarrow> bool" where
  "spec_hex_color s =
     (case s of [] \<Rightarrow> False | c # h \<Rightarrow> c = CHR ''#'' \<and> length h = 6 \<and> list_all is_hex_digit h)"


section \<open>data_fetching.py: the cache key of a feature request\<close>

text \<open>\<open>str(n)\<close> of a Python \<open>int\<close>: decimal digits, with a minus sign when negative.\<close>

definition digit_char :: "nat \<Rightarrow> char" where
  "digit_char d = ''0123456789'' ! d"

fun str_nat :: "nat \<Rightarrow> string" where
  "str_nat n = (if n < 10 then [digit_char n] else str_nat (n div 10) @ [digit_char (n mod 10)])"

declare str_nat.simps [simp del]

definition str_int :: "int \<Rightarrow> string" where
  "str_int i = (if i < 0 then CHR ''-'' # str_nat (nat (- i)) else str_nat (nat i))"

text \<open>\<open>sep.join(xs)\<close>.\<close>

fun str_join :: "string \<Rightarrow> string list \<Rightarrow> string" where
  "str_join sep [] = []"
| "str_join sep [x] = x"
| "str_join sep (x # y # ys) = x @ sep @ str_join sep (y # ys)"

text \<open>
  A value of the \<open>tags\<close> dictionary of a feature request (\<open>str | bool | list[str]\<close>). The
  dictionary is the list of its items in insertion order; its keys are distinct.
\<close>

datatype tag_filter = FStr string | FBool bool | FList "string list"

type_synonym tags = "(string \<times> tag_filter) list"

text \<open>
  \<open>_features_cache_key\<close> and \<open>_graph_cache_key\<close>. The text Python prints for a float inside
  an f-string is the parameter \<open>float_str\<close>.
\<close>

definition features_cache_key ::
  "(real \<Rightarrow> string) \<Rightarrow> real \<times> real \<Rightarrow> int \<Rightarrow> tags \<Rightarrow> string \<Rightarrow> string" where
  "features_cache_key float_str point dist' tags nm =
     (let (lat, lon) = point;
          tag_str = str_join ''_'' (sort (map fst tags))
      in nm @ ''_'' @ float_str lat @ ''_'' @ float_str lon @ ''_'' @ str_int dist' @ ''_'' @ tag_str)"

definition graph_cache_key :: "(real \<Rightarrow> string) \<Rightarrow> real \<times> real \<Rightarrow> int \<Rightarrow> string" where
  "graph_cache_key float_str point dist' =
     (let (lat, lon) = point
      in ''graph_'' @ float_str lat @ ''_'' @ float_str lon @ ''_'' @ str_int dist')"

text \<open>
  Reading a text back: the number a string of digits denotes. It is used to show that
  the text of a number determines the number.
\<close>

definition digit_val :: "char \<Rightarrow> nat" where
  "digit_val c = (case map_of (zip ''0123456789'' [0, 1, 2, 3, 4, 5, 6, 7, 8, 9]) c of
                    Some d \<Rightarrow> d | None \<Rightarrow> 0)"

definition nat_of_str :: "string \<Rightarrow> nat" where
  "nat_of_str s = fold (\<lambda>c acc. 10 * acc + digit_val c) s 0"


section \<open>cache.py: the cache manager\<close>

text \<open>
  A file of the cache directory holds a pickled value or bytes that \<open>pickle.load\<close>
  rejects. The cache manager is the content of its directory, by file name, together
  with whether a file of the directory can be opened for writing. The MD5 digest (in
  hexadecimal) is the parameter \<open>md5_hex\<close>.
\<close>

datatype 'v cache_file = Corrupt | Pickled 'v

record 'v CacheManager =
  files :: "string \<rightharpoonup> 'v cache_file"
  writable :: bool

definition cache_key_to_filename :: "(string \<Rightarrow> string) \<Rightarrow> string \<Rightarrow> string" where
  "cache_key_to_filename md5_hex key = md5_hex key @ ''.pkl''"

definition cache_get ::
  "(string \<Rightarrow> string) \<Rightarrow> 'v CacheManager \<Rightarrow> string \<Rightarrow> py_error + 'v option" where
  "cache_get md5_hex self key =
     (let filename = cache_key_to_filename md5_hex key in
      case files self filename of
        None \<Rightarrow> Inr None
      | Some Corrupt \<Rightarrow> Inl (CacheError key)
      | Some (Pickled v) \<Rightarrow> Inr (Some v))"

definition cache_set ::
  "(string \<Rightarrow> string) \<Rightarrow> 'v CacheManager \<Rightarrow> string \<Rightarrow> 'v \<Rightarrow> py_error + 'v CacheManager" where
  "cache_set md5_hex self key v =
     (let filename = cache_key_to_filename md5_hex key in
      if writable self then Inr (self\<lparr>files := (files self)(filename \<mapsto> Pickled v)\<rparr>)
      else Inl (CacheError key))"



section \<open>The clock and the external requests\<close>

text \<open>
  What the rate limiters and the geocoder do to the world outside: they read the clock
  (\<open>time.time()\<close>), sleep, and send queries to the geocoding provider. The clock is a
  real number of seconds; \<open>time.sleep(d)\<close> moves it on by \<open>d\<close> and a request by its
  latency. The durations slept and the queries sent, each with the time it was issued at,
  are recorded in order.
\<close>

record world =
  clock :: real
  slept :: "real list"
  requests :: "(string \<times> real) list"

definition time_sleep :: "real \<Rightarrow> world \<Rightarrow> world" where
  "time_sleep d w = w\<lparr>clock := clock w + d, slept := slept w @ [d]\<rparr>"

text \<open>
  The answer of \<open>geolocator.geocode(query)\<close>: no location, a location with latitude and
  longitude, or an exception. The provider is a function from the query and the time it
  is issued at to the answer and the time the request takes.
\<close>

datatype provider_reply = NotFound | Location real real | ProviderError string

type_synonym provider = "string \<Rightarrow> real \<Rightarrow> provider_reply \<times> real"


section \<open>geocoding.py: NominatimGeocoder\<close>

record NominatimGeocoder =
  cache :: "(real \<times> real) CacheManager"
  rate_limit :: real
  last_request_time :: "real option"

text \<open>\<open>_rate_limit_wait\<close>.\<close>

definition geocoder_rate_limit_wait ::
  "NominatimGeocoder \<Rightarrow> world \<Rightarrow> NominatimGeocoder \<times> world" where
  "geocoder_rate_limit_wait self w =
     (let w1 = (case last_request_time self of
                  None \<Rightarrow> w
                | Some last' \<Rightarrow>
                    (let elapsed = clock w - last'
                     in if elapsed < rate_limit self
                        then time_sleep (rate_limit self - elapsed) w
                        else w))
      in (self\<lparr>last_request_time := Some (clock w1)\<rparr>, w1))"

text \<open>
  \<open>geocode\<close>. A \<open>CacheError\<close> of \<open>cache.get\<close> is raised outside the \<open>try\<close> and leaves the
  function as it is; every exception inside the \<open>try\<close> leaves it as a \<open>ValueError\<close>; a
  \<open>CacheError\<close> of \<open>cache.set\<close> is only printed.
\<close>

definition geocode ::
  "(string \<Rightarrow> string) \<Rightarrow> provider \<Rightarrow> string \<Rightarrow> string \<Rightarrow> NominatimGeocoder \<Rightarrow> world
     \<Rightarrow> (py_error + real \<times> real) \<times> NominatimGeocoder \<times> world" where
  "geocode md5_hex geolocator city country self w =
     (let cache_key = geocoder_cache_key city country in
      case cache_get md5_hex (cache self) cache_key of
        Inl e \<Rightarrow> (Inl e, self, w)
      | Inr (Some cached) \<Rightarrow> (Inr cached, self, w)
      | Inr None \<Rightarrow>
          (let (self1, w1) = geocoder_rate_limit_wait self w;
               query = city @ '', '' @ country;
               (location, latency) = geolocator query (clock w1);
               w2 = w1\<lparr>clock := clock w1 + latency,
                        requests := requests w1 @ [(query, clock w1)]\<rparr>
           in case location of
                ProviderError msg \<Rightarrow>
                  (Inl (ValueError (''Geocoding failed for '' @ city @ '', '' @ country @ '': '' @ msg)),
                   self1, w2)
              | NotFound \<Rightarrow>
                  (Inl (ValueError (''Geocoding failed for '' @ city @ '', '' @ country @ '': '' @
                          ''Could not find coordinates for '' @ city @ '', '' @ country)),
                   self1, w2)
              | Location latitude longitude \<Rightarrow>
                  (let coords = (latitude, longitude);
                       self2 = (case cache_set md5_hex (cache self1) cache_key coords of
                                  Inl e \<Rightarrow> self1
                                | Inr c \<Rightarrow> self1\<lparr>cache := c\<rparr>)
                   in (Inr coords, self2, w2))))"

text \<open>
  A sequence of calls of \<open>geocode\<close> on one geocoder, each after an idle time; the
  results are dropped (a caller that catches the exceptions).
\<close>

fun geocode_calls ::
  "(string \<Rightarrow> string) \<Rightarrow> provider \<Rightarrow> (real \<times> string \<times> string) list
     \<Rightarrow> NominatimGeocoder \<Rightarrow> world \<Rightarrow> NominatimGeocoder \<times> world" where
  "geocode_calls md5_hex geolocator [] self w = (self, w)"
| "geocode_calls md5_hex geolocator ((idle, city, country) # rest) self w =
     (case geocode md5_hex geolocator city country self (w\<lparr>clock := clock w + idle\<rparr>) of
        (r, self', w') \<Rightarrow> geocode_calls md5_hex geolocator rest self' w')"

text \<open>Whether every call of such a sequence misses the cache.\<close>

fun no_cache_hits ::
  "(string \<Rightarrow> string) \<Rightarrow> provider \<Rightarrow> (real \<times> string \<times> string) list
     \<Rightarrow> NominatimGeocoder \<Rightarrow> world \<Rightarrow> bool" where
  "no_cache_hits md5_hex geolocator [] self w = True"
| "no_cache_hits md5_hex geolocator ((idle, city, country) # rest) self w =
     (cache_get md5_hex (cache self) (geocoder_cache_key city country) = Inr None \<and>
      (case geocode md5_hex geolocator city country self (w\<lparr>clock := clock w + idle\<rparr>) of
         (r, self', w') \<Rightarrow> no_cache_hits md5_hex geolocator rest self' w'))"

text \<open>The times at which the calls of such a sequence are entered.\<close>

fun geocode_call_starts ::
  "(string \<Rightarrow> string) \<Rightarrow> provider \<Rightarrow> (real \<times> string \<times> string) list
     \<Rightarrow> NominatimGeocoder \<Rightarrow> world \<Rightarrow> real list" where
  "geocode_call_starts md5_hex geolocator [] self w = []"
| "geocode_call_starts md5_hex geolocator ((idle, city, country) # rest) self w =
     (clock w + idle) #
     (case geocode md5_hex geolocator city country self (w\<lparr>clock := clock w + idle\<rparr>) of
        (r, self', w') \<Rightarrow> geocode_call_starts md5_hex geolocator rest self' w')"

text \<open>Consecutive times of a list are at least \<open>r\<close> apart.\<close>

fun spaced :: "real \<Rightarrow> real list \<Rightarrow> bool" where
  "spaced r [] = True"
| "spaced r [t] = True"
| "spaced r (t # u # ts) = (t + r \<le> u \<and> spaced r (u # ts))"


section \<open>data_fetching.py: the rate limiter of OSMDataFetcher\<close>

record OSMDataFetcher =
  graph_rate_limit :: real
  features_rate_limit :: real
  last_graph_request :: "real option"
  last_features_request :: "real option"

text \<open>\<open>_rate_limit_wait(request_type)\<close>.\<close>

definition fetcher_rate_limit_wait ::
  "string \<Rightarrow> OSMDataFetcher \<Rightarrow> world \<Rightarrow> OSMDataFetcher \<times> world" where
  "fetcher_rate_limit_wait request_type self w =
     (let (last_time, limit) =
            (if request_type = ''graph''
             then (last_graph_request self, graph_rate_limit self)
             else (last_features_request self, features_rate_limit self));
          w1 = (case last_time of
                  None \<Rightarrow> w
                | Some last' \<Rightarrow>
                    (let elapsed = clock w - last'
                     in if elapsed < limit then time_sleep (limit - elapsed) w else w))
      in if request_type = ''graph''
         then (self\<lparr>last_graph_request := Some (clock w1)\<rparr>, w1)
         else (self\<lparr>last_features_request := Some (clock w1)\<rparr>, w1))"


section \<open>output.py and create_map_poster.py: the orchestrator\<close>

text \<open>
  \<open>OutputManager.generate_filename\<close>; the text of \<open>datetime.now()\<close> in the format of
  the source is the argument \<open>timestamp\<close>.
\<close>

definition generate_filename ::
  "string \<Rightarrow> string \<Rightarrow> string \<Rightarrow> string \<Rightarrow> string \<Rightarrow> string" where
  "generate_filename output_dir timestamp city theme_name output_format =
     (let city_slug = map (\<lambda>c. if c = CHR '' '' then CHR ''_'' else c) (str_lower city);
          ext = str_lower output_format;
          filename = city_slug @ ''_'' @ theme_name @ ''_'' @ timestamp @ ''.'' @ ext
      in output_dir @ ''/'' @ filename)"

text \<open>
  \<open>PosterGenerator\<close> is built from its collaborators. The geocoder, the data fetcher and
  the renderer are the abstract interfaces of the source: any functions that return a
  value or raise, and change a state \<open>'s\<close> of their own (caches, rate limiters, the
  clock). The theme manager is the one above, the output manager its directory and the
  time it reads.
\<close>

record ('s, 'g, 'f) PosterGenerator =
  geocoder :: "string \<Rightarrow> string \<Rightarrow> 's \<Rightarrow> (py_error + real \<times> real) \<times> 's"
  fetch_graph :: "real \<times> real \<Rightarrow> int \<Rightarrow> 's \<Rightarrow> (py_error + 'g option) \<times> 's"
  fetch_features ::
    "real \<times> real \<Rightarrow> int \<Rightarrow> tags \<Rightarrow> string \<Rightarrow> 's \<Rightarrow> (py_error + 'f option) \<times> 's"
  theme_manager :: ThemeManager
  renderer ::
    "'g \<Rightarrow> 'f option \<Rightarrow> 'f option \<Rightarrow> string \<Rightarrow> string \<Rightarrow> real \<times> real \<Rightarrow> Theme
       \<Rightarrow> string \<Rightarrow> string \<Rightarrow> string option \<Rightarrow> 's \<Rightarrow> (py_error + unit) \<times> 's"
  output_dir :: string
  now_text :: "'s \<Rightarrow> string"

text \<open>
  The state of a run: the state of the collaborators and the poster files written so
  far. A call of \<open>render\<close> that returns has written the file at its output path (saving
  is its last action); one that raises has written none.
\<close>

record 's app_state =
  services :: 's
  disk :: "string list"

text \<open>\<open>generate_poster\<close>: each exception of a collaborator leaves the function.\<close>

definition generate_poster ::
  "('s, 'g, 'f) PosterGenerator \<Rightarrow> string \<Rightarrow> string \<Rightarrow> string \<Rightarrow> int \<Rightarrow> string
     \<Rightarrow> string option \<Rightarrow> 's app_state \<Rightarrow> (py_error + string) \<times> 's app_state" where
  "generate_poster self city country theme_name distance output_format country_label st =
     (case geocoder self city country (services st) of
        (Inl e, s1) \<Rightarrow> (Inl e, st\<lparr>services := s1\<rparr>)
      | (Inr coords, s1) \<Rightarrow>
     (case fetch_graph self coords distance s1 of
        (Inl e, s2) \<Rightarrow> (Inl e, st\<lparr>services := s2\<rparr>)
      | (Inr None, s2) \<Rightarrow>
          (Inl (RuntimeError ''Failed to retrieve street network data''), st\<lparr>services := s2\<rparr>)
      | (Inr (Some graph), s2) \<Rightarrow>
     (case fetch_features self coords distance
             [(''natural'', FStr ''water''), (''waterway'', FStr ''riverbank'')] ''water'' s2 of
        (Inl e, s3) \<Rightarrow> (Inl e, st\<lparr>services := s3\<rparr>)
      | (Inr water', s3) \<Rightarrow>
     (case fetch_features self coords distance
             [(''leisure'', FStr ''park''), (''landuse'', FStr ''grass'')] ''parks'' s3 of
        (Inl e, s4) \<Rightarrow> (Inl e, st\<lparr>services := s4\<rparr>)
      | (Inr parks', s4) \<Rightarrow>
     (case load_theme (theme_manager self) theme_name of
        Inl e \<Rightarrow> (Inl e, st\<lparr>services := s4\<rparr>)
      | Inr theme \<Rightarrow>
     (let output_path =
            generate_filename (output_dir self) (now_text self s4) city theme_name output_format
      in case renderer self graph water' parks' city country coords theme output_path
                output_format country_label s4 of
           (Inl e, s5) \<Rightarrow> (Inl e, st\<lparr>services := s5\<rparr>)
         | (Inr u, s5) \<Rightarrow>
             (Inr output_path, \<lparr>services = s5, disk = disk st @ [output_path]\<rparr>)))))))"

text \<open>The loop of \<open>generate_all_themes\<close> over the theme names, and the function.\<close>

fun generate_themes_loop ::
  "('s, 'g, 'f) PosterGenerator \<Rightarrow> string \<Rightarrow> string \<Rightarrow> int \<Rightarrow> string \<Rightarrow> string option
     \<Rightarrow> string list \<Rightarrow> string list \<Rightarrow> 's app_state \<Rightarrow> (py_error + string list) \<times> 's app_state" where
  "generate_themes_loop self city country distance output_format country_label
       [] output_paths st = (Inr output_paths, st)"
| "generate_themes_loop self city country distance output_format country_label
       (theme_name # themes) output_paths st =
     (case generate_poster self city country theme_name distance output_format country_label st of
        (Inl e, st') \<Rightarrow> (Inl e, st')
      | (Inr output_path, st') \<Rightarrow>
          generate_themes_loop self city country distance output_format country_label
            themes (output_paths @ [output_path]) st')"

definition generate_all_themes ::
  "('s, 'g, 'f) PosterGenerator \<Rightarrow> string \<Rightarrow> string \<Rightarrow> int \<Rightarrow> string \<Rightarrow> string option
     \<Rightarrow> 's app_state \<Rightarrow> (py_error + string list) \<times> 's app_state" where
  "generate_all_themes self city country distance output_format country_label st =
     (let themes = list_themes (theme_manager self)
      in generate_themes_loop self city country distance output_format country_label
           themes [] st)"


section \<open>Title scaling\<close>

text \<open>
  C8. A title of at most 10 characters is set at the base size; a longer one at
  \<open>base_size * 10 / length\<close>, but never below 24 points; a title of 20 characters at base
  size 60 is set at exactly 30.
\<close>

theorem title_scaling_rule:
  "(length city_name \<le> 10 \<longrightarrow>
      fp_size (get_city_font fonts city_name base_size) = Some base_size) \<and>
   (length city_name > 10 \<longrightarrow>
      fp_size (get_city_font fonts city_name base_size)
        = Some (max (base_size * 10 / real (length city_name)) 24)) \<and>
   (length city_name = 20 \<longrightarrow>
      fp_size (get_city_font fonts city_name 60) = Some 30)"
  by (simp add: get_city_font_def Let_def)

theorem title_scaling_rule_witness:
  "length ''Paris'' \<le> 10 \<and>
   fp_size (get_city_font fallback ''Paris'' 60) = Some 60 \<and>
   length ''San Pedro de Atacama'' = 20 \<and>
   fp_size (get_city_font fallback ''San Pedro de Atacama'' 60) = Some 30 \<and>
   fp_size (get_city_font fallback ''San Pedro de Atacama'' 40) = Some 24"
  using title_scaling_rule [of "''Paris''" fallback 60]
    title_scaling_rule [of "''San Pedro de Atacama''" fallback 60]
    title_scaling_rule [of "''San Pedro de Atacama''" fallback 40]
  by simp


section \<open>The geocoder's cache key is not injective\<close>

text \<open>
  C10. Distinct (city, country) requests can derive the same cache key: the separator
  \<open>_\<close> may also occur inside a name, and both names are lower-cased.
\<close>

theorem geocoder_cache_key_not_injective:
  "(''a'', ''b_c'') \<noteq> (''a_b'', ''c'') \<and>
   geocoder_cache_key ''a'' ''b_c'' = geocoder_cache_key ''a_b'' ''c'' \<and>
   geocoder_cache_key ''a'' ''b_c'' = ''coords_a_b_c'' \<and>
   (''Paris'', ''France'') \<noteq> (''paris'', ''FRANCE'') \<and>
   geocoder_cache_key ''Paris'' ''France'' = geocoder_cache_key ''paris'' ''FRANCE''"
  by (simp add: geocoder_cache_key_def str_lower_def lower_char_def)

section \<open>Edge tiers\<close>

text \<open>
  The counterexample to C2 as it is written: an edge with no \<open>highway\<close> tag is
  read as \<open>unclassified\<close> and takes the residential branch, not the default one.
\<close>

theorem missing_tag_not_default_tier:
  "highway_of None = ''unclassified'' \<and>
   edge_tier (highway_of None) = Residential \<and>
   edge_tier (highway_of None) \<noteq> Default \<and>
   edge_color default_theme None = JStr ''#4A4A4A'' \<and>
   road_default default_theme = JStr ''#3A3A3A''"
  by (simp add: highway_of_def edge_tier_def edge_color_def default_theme_def Theme_init_def)

text \<open>
  C2, amended. Every road tag value (absent, a string, a list) is styled by exactly one
  of the six tiers, the one of its normalised tag: colour and width are the tier's. Each
  tier is taken by exactly the tags of its family, and by no other. A list is read by its
  first entry. A tag outside the five families takes the default tier, while an absent
  tag or an empty list is read as \<open>unclassified\<close> and takes the residential tier.
\<close>

theorem edge_tier_coverage:
  "edge_color theme d = tier_color theme (edge_tier (highway_of d)) \<and>
   edge_width d = tier_width (edge_tier (highway_of d)) \<and>
   (edge_tier h = Motorway \<longleftrightarrow> h \<in> {''motorway'', ''motorway_link''}) \<and>
   (edge_tier h = Primary \<longleftrightarrow> h \<in> {''trunk'', ''trunk_link'', ''primary'', ''primary_link''}) \<and>
   (edge_tier h = Secondary \<longleftrightarrow> h \<in> {''secondary'', ''secondary_link''}) \<and>
   (edge_tier h = Tertiary \<longleftrightarrow> h \<in> {''tertiary'', ''tertiary_link''}) \<and>
   (edge_tier h = Residential \<longleftrightarrow> h \<in> {''residential'', ''living_street'', ''unclassified''}) \<and>
   (edge_tier h = Default \<longleftrightarrow>
      h \<notin> {''motorway'', ''motorway_link'', ''trunk'', ''trunk_link'', ''primary'',
            ''primary_link'', ''secondary'', ''secondary_link'', ''tertiary'',
            ''tertiary_link'', ''residential'', ''living_street'', ''unclassified''}) \<and>
   highway_of (Some (TList (x # xs))) = x \<and>
   edge_color theme (Some (TList (x # xs))) = edge_color theme (Some (TStr x)) \<and>
   edge_width (Some (TList (x # xs))) = edge_width (Some (TStr x)) \<and>
   edge_tier (highway_of None) = Residential \<and>
   edge_tier (highway_of (Some (TList []))) = Residential"
proof -
  have c: "edge_color theme d = tier_color theme (edge_tier (highway_of d))"
    by (simp add: edge_color_def edge_tier_def Let_def)
  have w: "edge_width d = tier_width (edge_tier (highway_of d))"
    by (simp add: edge_width_def edge_tier_def Let_def)
  have t: "(edge_tier h = Motorway \<longleftrightarrow> h \<in> {''motorway'', ''motorway_link''}) \<and>
   (edge_tier h = Primary \<longleftrightarrow> h \<in> {''trunk'', ''trunk_link'', ''primary'', ''primary_link''}) \<and>
   (edge_tier h = Secondary \<longleftrightarrow> h \<in> {''secondary'', ''secondary_link''}) \<and>
   (edge_tier h = Tertiary \<longleftrightarrow> h \<in> {''tertiary'', ''tertiary_link''}) \<and>
   (edge_tier h = Residential \<longleftrightarrow> h \<in> {''residential'', ''living_street'', ''unclassified''}) \<and>
   (edge_tier h = Default \<longleftrightarrow>
      h \<notin> {''motorway'', ''motorway_link'', ''trunk'', ''trunk_link'', ''primary'',
            ''primary_link'', ''secondary'', ''secondary_link'', ''tertiary'',
            ''tertiary_link'', ''residential'', ''living_street'', ''unclassified''})"
    unfolding edge_tier_def by auto
  have l: "highway_of (Some (TList (x # xs))) = x"
    "highway_of (Some (TStr x)) = x"
    "highway_of None = ''unclassified''"
    "highway_of (Some (TList [])) = ''unclassified''"
    by (simp_all add: highway_of_def)
  have f: "edge_color theme (Some (TList (x # xs))) = edge_color theme (Some (TStr x))"
    "edge_width (Some (TList (x # xs))) = edge_width (Some (TStr x))"
    by (simp_all add: edge_color_def edge_width_def l)
  have r: "edge_tier ''unclassified'' = Residential"
    by (simp add: edge_tier_def)
  show ?thesis
    using c w t l f r by simp
qed

theorem edge_tier_coverage_witness:
  "edge_color default_theme (Some (TList [''primary'', ''secondary''])) = JStr ''#1A1A1A'' \<and>
   edge_width (Some (TList [''primary'', ''secondary''])) = 1.0 \<and>
   edge_tier ''motorway_link'' = Motorway \<and>
   edge_tier ''footway'' = Default \<and>
   edge_color default_theme (Some (TStr ''footway'')) = JStr ''#3A3A3A'' \<and>
   edge_width None = 0.4"
  using edge_tier_coverage [of default_theme "Some (TList [''primary'', ''secondary''])"
      "''motorway_link''" "''primary''" "[''secondary'']"]
    edge_tier_coverage [of default_theme "Some (TStr ''footway'')" "''footway''" "''a''" "[]"]
    edge_tier_coverage [of default_theme None "''primary''" "''a''" "[]"]
  by (simp add: highway_of_def default_theme_def Theme_init_def)


section \<open>Crop limits\<close>

text \<open>
  C7. For nodes whose bounding box has positive width and height and a figure of positive
  width and height, \<open>_get_crop_limits\<close> returns a window whose width over height is the
  figure's width over height, centred on the centre of the box, and inside the box.
\<close>

theorem crop_aspect_invariant:
  assumes mx: "py_min (map fst nodes) = Inr minx" "py_max (map fst nodes) = Inr maxx"
      and my: "py_min (map snd nodes) = Inr miny" "py_max (map snd nodes) = Inr maxy"
      and pos: "minx < maxx" "miny < maxy" "0 < fw" "0 < fh"
  shows "case get_crop_limits nodes (fw, fh) of
           Inl e \<Rightarrow> False
         | Inr ((xlo, xhi), (ylo, yhi)) \<Rightarrow>
             xlo < xhi \<and> ylo < yhi \<and>
             (xhi - xlo) / (yhi - ylo) = fw / fh \<and>
             (xlo + xhi) / 2 = (minx + maxx) / 2 \<and>
             (ylo + yhi) / 2 = (miny + maxy) / 2 \<and>
             minx \<le> xlo \<and> xhi \<le> maxx \<and> miny \<le> ylo \<and> yhi \<le> maxy"
proof -
  define xr where "xr = maxx - minx"
  define yr where "yr = maxy - miny"
  define a where "a = fw / fh"
  have xr: "0 < xr" and yr: "0 < yr" and a: "0 < a"
    using pos by (simp_all add: xr_def yr_def a_def)
  consider (wide) "xr / yr > a" | (tall) "xr / yr < a" | (same) "xr / yr = a"
    by linarith
  then show ?thesis
  proof cases
    case wide
    then have lt: "yr * a < xr" using yr by (simp add: field_simps)
    have pos': "0 < yr * a" using yr a by simp
    have eq: "get_crop_limits nodes (fw, fh) =
        Inr (((minx + maxx) / 2 - yr * a / 2, (minx + maxx) / 2 + yr * a / 2), (miny, maxy))"
      using wide pos yr by (simp add: get_crop_limits_def Let_def mx my xr_def yr_def a_def)
    have r: "((minx + maxx) / 2 + yr * a / 2 - ((minx + maxx) / 2 - yr * a / 2)) / (maxy - miny) = a"
      using yr by (simp add: yr_def field_simps)
    have b1: "minx \<le> (minx + maxx) / 2 - yr * a / 2"
      using lt unfolding xr_def by argo
    have b2: "(minx + maxx) / 2 + yr * a / 2 \<le> maxx"
      using lt unfolding xr_def by argo
    show ?thesis
      unfolding eq a_def[symmetric] using pos' pos r b1 b2
      by simp
  next
    case tall
    then have lt: "xr / a < yr" using yr a by (simp add: field_simps)
    have pos': "0 < xr / a" using xr a by simp
    have eq: "get_crop_limits nodes (fw, fh) =
        Inr ((minx, maxx), ((miny + maxy) / 2 - xr / a / 2, (miny + maxy) / 2 + xr / a / 2))"
      using tall pos yr by (simp add: get_crop_limits_def Let_def mx my xr_def yr_def a_def)
    have r: "(maxx - minx) / ((miny + maxy) / 2 + xr / a / 2 - ((miny + maxy) / 2 - xr / a / 2)) = a"
      using xr a by (simp add: xr_def field_simps)
    have b1: "miny \<le> (miny + maxy) / 2 - xr / a / 2"
      using lt unfolding yr_def by argo
    have b2: "(miny + maxy) / 2 + xr / a / 2 \<le> maxy"
      using lt unfolding yr_def by argo
    show ?thesis
      unfolding eq a_def[symmetric] using pos' pos r b1 b2
      by simp
  next
    case same
    have eq: "get_crop_limits nodes (fw, fh) = Inr ((minx, maxx), (miny, maxy))"
      using same pos yr by (simp add: get_crop_limits_def Let_def mx my xr_def yr_def a_def)
    have r: "(maxx - minx) / (maxy - miny) = a"
      using same by (simp only: xr_def yr_def)
    show ?thesis
      unfolding eq a_def[symmetric] using pos r
      by simp
  qed
qed

theorem crop_aspect_invariant_witness:
  "py_min (map fst [(0, 0), (10, 4), (3, 8)]) = Inr 0 \<and>
   py_max (map fst [(0, 0), (10, 4), (3, 8)]) = Inr 10 \<and>
   py_min (map snd [(0, 0), (10, 4), (3, 8)]) = Inr 0 \<and>
   py_max (map snd [(0, 0), (10, 4), (3, 8)]) = Inr 8 \<and>
   get_crop_limits [(0, 0), (10, 4), (3, 8)] (12, 16) = Inr ((2, 8), (0, 8)) \<and>
   (8 - 2) / (8 - 0) = (12 :: real) / 16"
  using crop_aspect_invariant [of "[(0, 0), (10, 4), (3, 8)]" 0 10 0 8 12 16]
  by (simp add: get_crop_limits_def)


section \<open>Theme validation\<close>

lemma spec_hex_color_iff:
  "spec_hex_color s \<longleftrightarrow> (\<exists>h. s = CHR ''#'' # h \<and> length h = 6 \<and> list_all is_hex_digit h)"
  by (cases s) (auto simp: spec_hex_color_def)

lemma re_match_color_iff:
  "re_match_color s \<longleftrightarrow>
     spec_hex_color s \<or> (\<exists>s'. s = s' @ [CHR 0x0A] \<and> spec_hex_color s')"
proof (cases s)
  case Nil
  then show ?thesis by (simp add: re_match_color_def spec_hex_color_def)
next
  case (Cons c rest)
  have parts: "rest = take 6 rest @ drop 6 rest" by simp
  show ?thesis
  proof
    assume "re_match_color s"
    then have c: "c = CHR ''#''" and l: "length (take 6 rest) = 6"
      and h: "list_all is_hex_digit (take 6 rest)"
      and d: "drop 6 rest = [] \<or> drop 6 rest = [CHR 0x0A]"
      by (simp_all add: re_match_color_def Cons)
    from d show "spec_hex_color s \<or> (\<exists>s'. s = s' @ [CHR 0x0A] \<and> spec_hex_color s')"
    proof
      assume "drop 6 rest = []"
      with parts have "rest = take 6 rest" by simp
      with c l h Cons have "spec_hex_color s"
        by (simp add: spec_hex_color_def)
      then show ?thesis ..
    next
      assume "drop 6 rest = [CHR 0x0A]"
      with parts have "rest = take 6 rest @ [CHR 0x0A]" by simp
      with c Cons have "s = (CHR ''#'' # take 6 rest) @ [CHR 0x0A]" by simp
      moreover have "spec_hex_color (CHR ''#'' # take 6 rest)"
        using l h by (simp add: spec_hex_color_def)
      ultimately show ?thesis by blast
    qed
  next
    assume "spec_hex_color s \<or> (\<exists>s'. s = s' @ [CHR 0x0A] \<and> spec_hex_color s')"
    then show "re_match_color s"
    proof
      assume "spec_hex_color s"
      then obtain h where "s = CHR ''#'' # h" "length h = 6" "list_all is_hex_digit h"
        by (auto simp: spec_hex_color_iff)
      then show ?thesis by (simp add: re_match_color_def)
    next
      assume "\<exists>s'. s = s' @ [CHR 0x0A] \<and> spec_hex_color s'"
      then obtain h where "s = CHR ''#'' # (h @ [CHR 0x0A])" "length h = 6"
        "list_all is_hex_digit h"
        by (auto simp: spec_hex_color_iff)
      then show ?thesis by (simp add: re_match_color_def)
    qed
  qed
qed

lemma validate_loop_ok_iff:
  "validate_loop fs t = Inr () \<longleftrightarrow>
     list_all (\<lambda>(f, g). \<exists>s. g t = JStr s \<and> re_match_color s) fs"
  by (induction fs t rule: validate_loop.induct) (auto split: json.splits)

lemma validate_ok_iff:
  "validate t = Inr () \<longleftrightarrow>
     list_all (\<lambda>(f, g). \<exists>s. g t = JStr s \<and> re_match_color s) color_fields"
  by (simp add: validate_def validate_loop_ok_iff)

lemma validate_accepts_hex_colors:
  assumes "list_all (\<lambda>(f, g). \<exists>s. g t = JStr s \<and> spec_hex_color s) color_fields"
  shows "validate t = Inr ()"
proof -
  have "list_all (\<lambda>(f, g). \<exists>s. g t = JStr s \<and> re_match_color s) color_fields"
    using assms by (auto simp: list_all_iff re_match_color_iff)
  then show ?thesis by (simp add: validate_ok_iff)
qed

lemma validate_rejects:
  assumes "(f, g) \<in> set color_fields"
      and "\<forall>s. g t = JStr s \<longrightarrow> \<not> re_match_color s"
  shows "validate t \<noteq> Inr ()"
  using assms by (auto simp: validate_ok_iff list_all_iff)

text \<open>
  C5. The claim asks that a colour which is not \<open>#\<close> followed by exactly six hexadecimal
  digits be rejected. \<open>Theme.validate\<close> accepts the eight-character string
  \<open>#FFFFFF\<close> followed by a newline, which is not of that syntax.
\<close>

theorem validate_accepts_trailing_newline:
  "\<not> spec_hex_color (''#FFFFFF'' @ [CHR 0x0A]) \<and>
   length (''#FFFFFF'' @ [CHR 0x0A]) = 8 \<and>
   validate (default_theme\<lparr>bg := JStr (''#FFFFFF'' @ [CHR 0x0A])\<rparr>) = Inr () \<and>
   validate (default_theme\<lparr>bg := JStr ''#FFFFFF ''\<rparr>)
     = Inl (ValueError (''Invalid color '' @ [CHR 0x27] @ ''#FFFFFF '' @ [CHR 0x27] @
         '' for field '' @ [CHR 0x27] @ ''bg'' @ [CHR 0x27]))"
  by (simp add: spec_hex_color_def validate_def color_fields_def default_theme_def
      Theme_init_def re_match_color_def is_hex_digit_def)


section \<open>Cache keys of feature requests\<close>

lemma digit_val_digit_char: "d < 10 \<Longrightarrow> digit_val (digit_char d) = d"
proof -
  assume "d < 10"
  then have "d \<in> {0, 1, 2, 3, 4, 5, 6, 7, 8, 9}" by auto
  then show ?thesis
    by (auto simp: digit_val_def digit_char_def)
qed

lemma digit_char_not_minus: "d < 10 \<Longrightarrow> digit_char d \<noteq> CHR ''-''"
proof -
  assume "d < 10"
  then have "d \<in> {0, 1, 2, 3, 4, 5, 6, 7, 8, 9}" by auto
  then show ?thesis
    by (auto simp: digit_char_def)
qed

lemma nat_of_str_snoc: "nat_of_str (s @ [c]) = 10 * nat_of_str s + digit_val c"
  by (simp add: nat_of_str_def)

lemma nat_of_str_str_nat: "nat_of_str (str_nat n) = n"
proof (induction n rule: str_nat.induct)
  case (1 n)
  show ?case
  proof (cases "n < 10")
    case True
    then show ?thesis
      by (subst str_nat.simps) (simp add: nat_of_str_def digit_val_digit_char)
  next
    case False
    then have "nat_of_str (str_nat (n div 10)) = n div 10" using 1 by simp
    with False show ?thesis
      by (subst str_nat.simps) (simp add: nat_of_str_snoc digit_val_digit_char)
  qed
qed

lemma str_nat_inj: "str_nat m = str_nat n \<Longrightarrow> m = n"
  by (metis nat_of_str_str_nat)

lemma str_nat_hd: "\<exists>d r. d < 10 \<and> str_nat n = digit_char d # r"
proof (induction n rule: str_nat.induct)
  case (1 n)
  show ?case
  proof (cases "n < 10")
    case True
    then show ?thesis by (subst str_nat.simps) auto
  next
    case False
    then obtain d r where "d < 10" "str_nat (n div 10) = digit_char d # r"
      using 1 by blast
    with False show ?thesis by (subst str_nat.simps) auto
  qed
qed

lemma str_nat_not_minus: "str_nat n \<noteq> CHR ''-'' # r"
proof
  assume e: "str_nat n = CHR ''-'' # r"
  obtain d r' where "d < 10" "str_nat n = digit_char d # r'"
    using str_nat_hd by blast
  with e have "d < 10" "digit_char d = CHR ''-''" by simp_all
  then show False using digit_char_not_minus by blast
qed

lemma str_int_inj:
  assumes "str_int i = str_int j"
  shows "i = j"
proof -
  consider (neg) "i < 0" "j < 0" | (pos) "0 \<le> i" "0 \<le> j"
    | (np) "i < 0" "0 \<le> j" | (pn) "0 \<le> i" "j < 0"
    by linarith
  then show ?thesis
  proof cases
    case neg
    with assms have "str_nat (nat (- i)) = str_nat (nat (- j))" by (simp add: str_int_def)
    then have "nat (- i) = nat (- j)" by (rule str_nat_inj)
    with neg show ?thesis by simp
  next
    case pos
    with assms have "str_nat (nat i) = str_nat (nat j)" by (simp add: str_int_def)
    then have "nat i = nat j" by (rule str_nat_inj)
    with pos show ?thesis by simp
  next
    case np
    with assms have "str_nat (nat j) = CHR ''-'' # str_nat (nat (- i))"
      by (simp add: str_int_def)
    then show ?thesis using str_nat_not_minus by blast
  next
    case pn
    with assms have "str_nat (nat i) = CHR ''-'' # str_nat (nat (- j))"
      by (simp add: str_int_def)
    then show ?thesis using str_nat_not_minus by blast
  qed
qed

lemma split_on_free: "c \<notin> set x \<Longrightarrow> split_on c x = [x]"
  by (induction x) auto

lemma split_on_append: "c \<notin> set x \<Longrightarrow> split_on c (x @ c # r) = x # split_on c r"
  by (induction x) auto

lemma split_on_join:
  "xs \<noteq> [] \<Longrightarrow> \<forall>x \<in> set xs. c \<notin> set x \<Longrightarrow> split_on c (str_join [c] xs) = xs"
proof (induction "[c]" xs rule: str_join.induct)
  case 1
  then show ?case by simp
next
  case (2 x)
  then show ?case by (simp add: split_on_free)
next
  case (3 x y ys)
  then show ?case by (simp add: split_on_append)
qed

lemma str_join_nonempty: "xs \<noteq> [] \<Longrightarrow> hd xs \<noteq> [] \<Longrightarrow> str_join sep xs \<noteq> []"
  by (induction sep xs rule: str_join.induct) auto

lemma str_join_inj:
  assumes "\<forall>x \<in> set xs. x \<noteq> [] \<and> c \<notin> set x" "\<forall>y \<in> set ys. y \<noteq> [] \<and> c \<notin> set y"
      and "str_join [c] xs = str_join [c] ys"
  shows "xs = ys"
proof (cases "xs = []")
  case True
  show ?thesis
  proof (rule ccontr)
    assume "xs \<noteq> ys"
    with True have "ys \<noteq> []" by simp
    moreover from this assms(2) have "hd ys \<noteq> []" by (cases ys) auto
    ultimately have "str_join [c] ys \<noteq> []" by (rule str_join_nonempty)
    with True assms(3) show False by simp
  qed
next
  case False
  then have "hd xs \<noteq> []" using assms(1) by (cases xs) auto
  with False have "str_join [c] xs \<noteq> []" by (rule str_join_nonempty)
  with assms(3) have "ys \<noteq> []" by auto
  have "xs = split_on c (str_join [c] xs)"
    using False assms(1) by (simp add: split_on_join)
  also have "\<dots> = split_on c (str_join [c] ys)" using assms(3) by simp
  also have "\<dots> = ys" using \<open>ys \<noteq> []\<close> assms(2) by (simp add: split_on_join)
  finally show ?thesis .
qed

lemma sort_keys_eq:
  assumes "distinct (map fst t1)" "distinct (map fst t2)" "fst ` set t1 = fst ` set t2"
  shows "sort (map fst t1) = sort (map fst t2)"
proof (rule sorted_distinct_set_unique)
  show "sorted (sort (map fst t1))" "sorted (sort (map fst t2))" by simp_all
  show "distinct (sort (map fst t1))" "distinct (sort (map fst t2))"
    using assms by simp_all
  show "set (sort (map fst t1)) = set (sort (map fst t2))" using assms(3) by simp
qed

text \<open>
  The counterexample to C1 as it is written: two tag sets with the same key and
  different values derive the same key (and so do a key with an underscore in it and the
  two keys it splits into).
\<close>

theorem features_cache_key_ignores_tag_values:
  "[(''natural'', FStr ''water'')] \<noteq> [(''natural'', FStr ''wood'')] \<and>
   features_cache_key (\<lambda>x. if x = 1 then ''1.0'' else ''2.0'') (1, 2) 10000 [(''natural'', FStr ''water'')] ''water''
     = features_cache_key (\<lambda>x. if x = 1 then ''1.0'' else ''2.0'') (1, 2) 10000 [(''natural'', FStr ''wood'')] ''water''"
  by (simp add: features_cache_key_def)

text \<open>
  C1, amended. The key of a feature request is determined by the name, the point, the
  radius and the set of tag keys: two tag dictionaries with the same keys, in any order
  and with any values, derive the same key. Two requests that differ only in the radius
  derive different keys. Two requests with the same name, point and radius whose sets of
  tag keys differ derive different keys, provided no tag key is empty or contains an
  underscore.
\<close>

theorem features_cache_key_determinism:
  "(distinct (map fst t1) \<and> distinct (map fst t2) \<and> fst ` set t1 = fst ` set t2 \<longrightarrow>
      features_cache_key float_str point d1 t1 nm
        = features_cache_key float_str point d1 t2 nm) \<and>
   (d1 \<noteq> d2 \<longrightarrow>
      features_cache_key float_str point d1 t1 nm
        \<noteq> features_cache_key float_str point d2 t1 nm) \<and>
   ((\<forall>k \<in> fst ` set t1 \<union> fst ` set t2. k \<noteq> [] \<and> CHR ''_'' \<notin> set k) \<and>
      fst ` set t1 \<noteq> fst ` set t2 \<longrightarrow>
      features_cache_key float_str point d1 t1 nm
        \<noteq> features_cache_key float_str point d1 t2 nm)"
proof (intro conjI impI)
  assume "distinct (map fst t1) \<and> distinct (map fst t2) \<and> fst ` set t1 = fst ` set t2"
  then have "sort (map fst t1) = sort (map fst t2)" by (simp add: sort_keys_eq)
  then show "features_cache_key float_str point d1 t1 nm
      = features_cache_key float_str point d1 t2 nm"
    by (simp add: features_cache_key_def)
next
  assume "d1 \<noteq> d2"
  then have "str_int d1 \<noteq> str_int d2" using str_int_inj by blast
  then show "features_cache_key float_str point d1 t1 nm
      \<noteq> features_cache_key float_str point d2 t1 nm"
    by (simp add: features_cache_key_def split: prod.splits)
next
  assume a: "(\<forall>k \<in> fst ` set t1 \<union> fst ` set t2. k \<noteq> [] \<and> CHR ''_'' \<notin> set k) \<and>
      fst ` set t1 \<noteq> fst ` set t2"
  have "str_join ''_'' (sort (map fst t1)) \<noteq> str_join ''_'' (sort (map fst t2))"
  proof
    assume e: "str_join ''_'' (sort (map fst t1)) = str_join ''_'' (sort (map fst t2))"
    have "sort (map fst t1) = sort (map fst t2)"
      by (rule str_join_inj [where c = "CHR ''_''"]) (use a e in auto)
    then have "set (sort (map fst t1)) = set (sort (map fst t2))" by simp
    with a show False by simp
  qed
  then show "features_cache_key float_str point d1 t1 nm
      \<noteq> features_cache_key float_str point d1 t2 nm"
    by (simp add: features_cache_key_def split: prod.splits)
qed

theorem features_cache_key_determinism_witness:
  "features_cache_key (\<lambda>x. if x = 1 then ''1.0'' else ''2.0'') (1, 2) 10000
       [(''natural'', FStr ''water''), (''waterway'', FStr ''riverbank'')] ''water''
     = features_cache_key (\<lambda>x. if x = 1 then ''1.0'' else ''2.0'') (1, 2) 10000
         [(''waterway'', FStr ''riverbank''), (''natural'', FStr ''water'')] ''water'' \<and>
   features_cache_key (\<lambda>x. if x = 1 then ''1.0'' else ''2.0'') (1, 2) 10000
       [(''natural'', FStr ''water''), (''waterway'', FStr ''riverbank'')] ''water''
     = ''water_1.0_2.0_10000_natural_waterway'' \<and>
   features_cache_key (\<lambda>x. if x = 1 then ''1.0'' else ''2.0'') (1, 2) 10000
       [(''natural'', FStr ''water''), (''waterway'', FStr ''riverbank'')] ''water''
     \<noteq> features_cache_key (\<lambda>x. if x = 1 then ''1.0'' else ''2.0'') (1, 2) 12000
         [(''natural'', FStr ''water''), (''waterway'', FStr ''riverbank'')] ''water'' \<and>
   features_cache_key (\<lambda>x. if x = 1 then ''1.0'' else ''2.0'') (1, 2) 10000
       [(''natural'', FStr ''water''), (''waterway'', FStr ''riverbank'')] ''water''
     \<noteq> features_cache_key (\<lambda>x. if x = 1 then ''1.0'' else ''2.0'') (1, 2) 10000
         [(''leisure'', FStr ''park''), (''landuse'', FStr ''grass'')] ''water''"
  using
    features_cache_key_determinism [of
      "[(''natural'', FStr ''water''), (''waterway'', FStr ''riverbank'')]"
      "[(''waterway'', FStr ''riverbank''), (''natural'', FStr ''water'')]"
      "\<lambda>x. if x = 1 then ''1.0'' else ''2.0''" "(1, 2)" 10000 "''water''" 12000]
    features_cache_key_determinism [of
      "[(''natural'', FStr ''water''), (''waterway'', FStr ''riverbank'')]"
      "[(''leisure'', FStr ''park''), (''landuse'', FStr ''grass'')]"
      "\<lambda>x. if x = 1 then ''1.0'' else ''2.0''" "(1, 2)" 10000 "''water''" 12000]
  by (simp add: features_cache_key_def str_int_def str_nat.simps digit_char_def)


section \<open>Theme loading and its fallback\<close>

lemma load_theme_cases:
  "load_theme self nm =
     (case theme_path_exists self nm of
        Inl e \<Rightarrow> Inl e
      | Inr None \<Rightarrow> if stdout_ok self then Inr default_theme else Inl UnicodeEncodeError
      | Inr (Some f) \<Rightarrow>
          if \<not> stdout_ok self then Inl UnicodeEncodeError
          else (case from_json f of
                  Inl e \<Rightarrow> Inr default_theme
                | Inr t \<Rightarrow> if validate t = Inr () then Inr t else Inr default_theme))"
  by (auto simp: load_theme_def load_theme_try_def print_text_def
      split: option.splits sum.splits)

lemma theme_path_exists_short:
  assumes "length nm \<le> 250" "CHR ''/'' \<notin> set nm"
  shows "theme_path_exists self nm = Inr (map_of (themes_dir self) nm)"
proof -
  have "CHR ''/'' \<notin> set (nm @ ''.json'')" using assms(2) by simp
  then have "split_on (CHR ''/'') (nm @ ''.json'') = [nm @ ''.json'']"
    by (rule split_on_free)
  then show ?thesis using assms(1) by (simp add: theme_path_exists_def)
qed

text \<open>
  Where the fallback does hold: for a name of at most 250 bytes without a slash, on a
  standard output that accepts the messages, a missing file, a file that is unreadable
  or not JSON or does not build a \<open>Theme\<close>, and a theme that \<open>Theme.validate\<close> rejects all
  give the default theme.
\<close>

lemma load_theme_default:
  assumes "length nm \<le> 250" "CHR ''/'' \<notin> set nm" "stdout_ok self"
      and "map_of (themes_dir self) nm = None \<or>
           (\<exists>f. map_of (themes_dir self) nm = Some f \<and>
                (case from_json f of Inl e \<Rightarrow> True | Inr t \<Rightarrow> validate t \<noteq> Inr ()))"
  shows "load_theme self nm = Inr default_theme"
proof -
  have p: "theme_path_exists self nm = Inr (map_of (themes_dir self) nm)"
    using assms(1,2) by (rule theme_path_exists_short)
  from assms(4) show ?thesis
  proof
    assume "map_of (themes_dir self) nm = None"
    then show ?thesis using p assms(3) by (simp add: load_theme_cases)
  next
    assume "\<exists>f. map_of (themes_dir self) nm = Some f \<and>
                (case from_json f of Inl e \<Rightarrow> True | Inr t \<Rightarrow> validate t \<noteq> Inr ())"
    then obtain f where f: "map_of (themes_dir self) nm = Some f"
      and c: "case from_json f of Inl e \<Rightarrow> True | Inr t \<Rightarrow> validate t \<noteq> Inr ()"
      by blast
    show ?thesis
    proof (cases "from_json f")
      case (Inl e)
      then show ?thesis using p f assms(3) by (simp add: load_theme_cases)
    next
      case (Inr t)
      with c have "validate t \<noteq> Inr ()" by simp
      then show ?thesis using p f assms(3) Inr by (simp add: load_theme_cases)
    qed
  qed
qed

text \<open>
  C4. The claim asks that \<open>load_theme\<close> never raise and that a theme file with an
  invalid colour give the default theme. For a theme file whose \<open>bg\<close> is \<open>#FFFFFF\<close>
  followed by a newline, which is not a colour of the specified syntax, \<open>load_theme\<close>
  returns the theme of the file, not the default theme. For a name of 300 characters the
  existence test, which stands before the \<open>try\<close>, raises \<open>OSError\<close>, and \<open>load_theme\<close> with
  it; and on a standard output that rejects the messages the print of the not-found
  branch raises.
\<close>

theorem load_theme_fallback_fails:
  "\<not> spec_hex_color (''#FFFFFF'' @ [CHR 0x0A]) \<and>
   load_theme
     \<lparr>themes_dir = [(''odd'', Parsed (JObj [(''name'', JStr ''Odd''),
                                             (''bg'', JStr (''#FFFFFF'' @ [CHR 0x0A]))]))],
      stdout_ok = True\<rparr> ''odd''
     = Inr ((Theme_init (JStr ''Odd'') (JStr '''')) \<lparr>bg := JStr (''#FFFFFF'' @ [CHR 0x0A])\<rparr>) \<and>
   (Theme_init (JStr ''Odd'') (JStr '''')) \<lparr>bg := JStr (''#FFFFFF'' @ [CHR 0x0A])\<rparr>
     \<noteq> default_theme \<and>
   load_theme \<lparr>themes_dir = [], stdout_ok = True\<rparr> (replicate 300 (CHR ''a'')) = Inl OSError \<and>
   load_theme \<lparr>themes_dir = [], stdout_ok = False\<rparr> ''noir'' = Inl UnicodeEncodeError"
proof -
  have a: "\<not> spec_hex_color (''#FFFFFF'' @ [CHR 0x0A])"
    by (simp add: spec_hex_color_def)
  have b: "load_theme
     \<lparr>themes_dir = [(''odd'', Parsed (JObj [(''name'', JStr ''Odd''),
                                             (''bg'', JStr (''#FFFFFF'' @ [CHR 0x0A]))]))],
      stdout_ok = True\<rparr> ''odd''
     = Inr ((Theme_init (JStr ''Odd'') (JStr '''')) \<lparr>bg := JStr (''#FFFFFF'' @ [CHR 0x0A])\<rparr>)"
    by (simp add: load_theme_def load_theme_try_def theme_path_exists_def print_text_def
        from_json_def Theme_of_kwargs_def field_names_def kwarg_def Theme_init_def
        validate_def color_fields_def re_match_color_def is_hex_digit_def)
  have c: "(Theme_init (JStr ''Odd'') (JStr '''')) \<lparr>bg := JStr (''#FFFFFF'' @ [CHR 0x0A])\<rparr>
     \<noteq> default_theme"
    by (simp add: Theme_init_def default_theme_def)
  have "CHR ''/'' \<notin> set (replicate 300 (CHR ''a'') @ ''.json'')" by simp
  then have "split_on (CHR ''/'') (replicate 300 (CHR ''a'') @ ''.json'')
      = [replicate 300 (CHR ''a'') @ ''.json'']"
    by (rule split_on_free)
  then have d: "load_theme \<lparr>themes_dir = [], stdout_ok = True\<rparr> (replicate 300 (CHR ''a''))
      = Inl OSError"
    by (simp add: load_theme_def theme_path_exists_def)
  have e: "load_theme \<lparr>themes_dir = [], stdout_ok = False\<rparr> ''noir'' = Inl UnicodeEncodeError"
    by (simp add: load_theme_def theme_path_exists_def print_text_def)
  from a b c d e show ?thesis by blast
qed


section \<open>The geocoder: rate limiting and cache hits\<close>

lemma geocoder_rate_limit_wait_step:
  assumes "geocoder_rate_limit_wait self w = (self', w')"
  shows "self' = self\<lparr>last_request_time := Some (clock w')\<rparr>"
    and "clock w \<le> clock w'"
    and "requests w' = requests w"
    and "last_request_time self = None \<Longrightarrow> w' = w"
    and "last_request_time self = Some t0 \<Longrightarrow> t0 + rate_limit self \<le> clock w'"
    and "last_request_time self = Some t0 \<Longrightarrow> clock w' = max (clock w) (t0 + rate_limit self)"
    and "last_request_time self = Some t0 \<Longrightarrow> rate_limit self \<le> clock w - t0 \<Longrightarrow> w' = w"
  using assms
  by (auto simp: geocoder_rate_limit_wait_def time_sleep_def Let_def
      split: option.splits if_splits)


lemma geocode_not_miss:
  assumes "cache_get md5_hex (cache self) (geocoder_cache_key city country) \<noteq> Inr None"
  shows "snd (geocode md5_hex geolocator city country self w) = (self, w)"
proof (cases "cache_get md5_hex (cache self) (geocoder_cache_key city country)")
  case (Inl e)
  then show ?thesis by (simp add: geocode_def)
next
  case (Inr r)
  with assms obtain v where "r = Some v" by (cases r) auto
  with Inr show ?thesis by (simp add: geocode_def)
qed


lemma geocode_miss:
  assumes miss: "cache_get md5_hex (cache self) (geocoder_cache_key city country) = Inr None"
      and wait: "geocoder_rate_limit_wait self w = (self1, w1)"
      and run: "geocode md5_hex geolocator city country self w = (res, self', w')"
  shows "requests w' = requests w @ [(city @ '', '' @ country, clock w1)]"
    and "last_request_time self' = Some (clock w1)"
    and "rate_limit self' = rate_limit self"
    and "slept w' = slept w1"
    and "clock w' = clock w1 + snd (geolocator (city @ '', '' @ country) (clock w1))"
proof -
  have s1: "self1 = self\<lparr>last_request_time := Some (clock w1)\<rparr>"
    and rq: "requests w1 = requests w"
    using geocoder_rate_limit_wait_step [OF wait] by simp_all
  obtain location latency
    where g: "geolocator (city @ '', '' @ country) (clock w1) = (location, latency)"
    by (cases "geolocator (city @ '', '' @ country) (clock w1)")
  have w': "w' = w1\<lparr>clock := clock w1 + latency,
      requests := requests w1 @ [(city @ '', '' @ country, clock w1)]\<rparr>"
    using run miss wait g
    by (cases location) (auto simp: geocode_def Let_def)
  have l: "last_request_time self' = Some (clock w1) \<and> rate_limit self' = rate_limit self"
    using run miss wait g s1
    by (cases location)
      (auto simp: geocode_def Let_def cache_set_def split: sum.splits if_splits)
  show "requests w' = requests w @ [(city @ '', '' @ country, clock w1)]"
    using w' rq by simp
  show "last_request_time self' = Some (clock w1)" using l by simp
  show "rate_limit self' = rate_limit self" using l by simp
  show "slept w' = slept w1" using w' by simp
  show "clock w' = clock w1 + snd (geolocator (city @ '', '' @ country) (clock w1))"
    using w' g by simp
qed

lemma spaced_snoc:
  "spaced r (ts @ [t]) \<longleftrightarrow> spaced r ts \<and> (ts = [] \<or> last ts + r \<le> t)"
  by (induction r ts rule: spaced.induct) auto

text \<open>
  The invariant of a geocoder and the world it runs in: the requests sent so far are
  spaced, and the recorded timestamp is the time of the last request.
\<close>

lemma geocode_invariant:
  assumes inv: "spaced (rate_limit self) (map snd (requests w))"
      and lst: "case last_request_time self of
                  None \<Rightarrow> requests w = []
                | Some t \<Rightarrow> requests w \<noteq> [] \<and> snd (last (requests w)) = t"
      and run: "geocode md5_hex geolocator city country self (w\<lparr>clock := clock w + idle\<rparr>)
                  = (res, self', w')"
  shows "rate_limit self' = rate_limit self"
    and "spaced (rate_limit self) (map snd (requests w'))"
    and "case last_request_time self' of
           None \<Rightarrow> requests w' = []
         | Some t \<Rightarrow> requests w' \<noteq> [] \<and> snd (last (requests w')) = t"
proof -
  let ?w = "w\<lparr>clock := clock w + idle\<rparr>"
  let ?k = "geocoder_cache_key city country"
  have all: "rate_limit self' = rate_limit self \<and>
      spaced (rate_limit self) (map snd (requests w')) \<and>
      (case last_request_time self' of
         None \<Rightarrow> requests w' = []
       | Some t \<Rightarrow> requests w' \<noteq> [] \<and> snd (last (requests w')) = t)"
  proof (cases "cache_get md5_hex (cache self) ?k = Inr None")
    case False
    then have "snd (geocode md5_hex geolocator city country self ?w) = (self, ?w)"
      by (rule geocode_not_miss)
    then have "self' = self \<and> w' = ?w"
      using run by simp
    then show ?thesis using inv lst by (simp split: option.splits)
  next
    case True
    obtain self1 w1 where wait: "geocoder_rate_limit_wait self ?w = (self1, w1)"
      by (cases "geocoder_rate_limit_wait self ?w")
    note m = geocode_miss [OF True wait run]
    note s = geocoder_rate_limit_wait_step [OF wait]
    have rq: "requests w' = requests w @ [(city @ '', '' @ country, clock w1)]"
      using m(1) by simp
    have gap: "requests w = [] \<or> last (map snd (requests w)) + rate_limit self \<le> clock w1"
    proof (cases "last_request_time self")
      case None
      then show ?thesis using lst by simp
    next
      case (Some t0)
      then have "requests w \<noteq> []" "snd (last (requests w)) = t0" using lst by simp_all
      moreover have "t0 + rate_limit self \<le> clock w1" using s(5) [OF Some] .
      ultimately show ?thesis by (simp add: last_map)
    qed
    have "spaced (rate_limit self) (map snd (requests w'))"
      using inv gap by (simp add: rq spaced_snoc)
    then show ?thesis using m(2,3) rq by simp
  qed
  show "rate_limit self' = rate_limit self" using all by simp
  show "spaced (rate_limit self) (map snd (requests w'))" using all by simp
  show "case last_request_time self' of
           None \<Rightarrow> requests w' = []
         | Some t \<Rightarrow> requests w' \<noteq> [] \<and> snd (last (requests w')) = t"
    using all by simp
qed

lemma geocode_calls_spaced:
  assumes "spaced (rate_limit self) (map snd (requests w))"
      and "case last_request_time self of
             None \<Rightarrow> requests w = []
           | Some t \<Rightarrow> requests w \<noteq> [] \<and> snd (last (requests w)) = t"
  shows "spaced (rate_limit self)
           (map snd (requests (snd (geocode_calls md5_hex geolocator calls self w))))"
  using assms
proof (induction calls arbitrary: self w)
  case Nil
  then show ?case by simp
next
  case (Cons c calls)
  obtain idle city country where c: "c = (idle, city, country)" by (cases c)
  obtain res self' w'
    where run: "geocode md5_hex geolocator city country self (w\<lparr>clock := clock w + idle\<rparr>)
                  = (res, self', w')"
    by (cases "geocode md5_hex geolocator city country self (w\<lparr>clock := clock w + idle\<rparr>)")
  note i = geocode_invariant [OF Cons.prems(1) Cons.prems(2) run]
  have "spaced (rate_limit self')
          (map snd (requests (snd (geocode_calls md5_hex geolocator calls self' w'))))"
    using i by (intro Cons.IH) simp_all
  then show ?case using i(1) by (simp add: c run)
qed

lemma geocode_calls_count:
  assumes "no_cache_hits md5_hex geolocator calls self w"
  shows "length (requests (snd (geocode_calls md5_hex geolocator calls self w)))
           = length (requests w) + length calls"
  using assms
proof (induction calls arbitrary: self w)
  case Nil
  then show ?case by simp
next
  case (Cons c calls)
  obtain idle city country where c: "c = (idle, city, country)" by (cases c)
  let ?w = "w\<lparr>clock := clock w + idle\<rparr>"
  obtain res self' w'
    where run: "geocode md5_hex geolocator city country self ?w = (res, self', w')"
    by (cases "geocode md5_hex geolocator city country self ?w")
  obtain self1 w1 where wait: "geocoder_rate_limit_wait self ?w = (self1, w1)"
    by (cases "geocoder_rate_limit_wait self ?w")
  have miss: "cache_get md5_hex (cache self) (geocoder_cache_key city country) = Inr None"
    and rest: "no_cache_hits md5_hex geolocator calls self' w'"
    using Cons.prems by (simp_all add: c run)
  have "length (requests w') = length (requests w) + 1"
    using geocode_miss(1) [OF miss wait run] by simp
  moreover have "length (requests (snd (geocode_calls md5_hex geolocator calls self' w')))
      = length (requests w') + length calls"
    using rest by (rule Cons.IH)
  ultimately show ?case by (simp add: c run)
qed

lemma fetcher_rate_limit_wait_graph:
  assumes "fetcher_rate_limit_wait ''graph'' self w = (self', w')"
  shows "last_graph_request self' = Some (clock w')"
    and "last_features_request self' = last_features_request self"
    and "clock w \<le> clock w'"
    and "last_graph_request self = None \<Longrightarrow> w' = w"
    and "last_graph_request self = Some t0 \<Longrightarrow>
           clock w' = max (clock w) (t0 + graph_rate_limit self)"
  using assms
  by (auto simp: fetcher_rate_limit_wait_def time_sleep_def Let_def
      split: option.splits if_splits)

lemma fetcher_rate_limit_wait_features:
  assumes "fetcher_rate_limit_wait request_type self w = (self', w')"
      and "request_type \<noteq> ''graph''"
  shows "last_features_request self' = Some (clock w')"
    and "last_graph_request self' = last_graph_request self"
    and "clock w \<le> clock w'"
    and "last_features_request self = None \<Longrightarrow> w' = w"
    and "last_features_request self = Some t0 \<Longrightarrow>
           clock w' = max (clock w) (t0 + features_rate_limit self)"
  using assms
  by (auto simp: fetcher_rate_limit_wait_def time_sleep_def Let_def
      split: option.splits if_splits)

text \<open>
  The counterexample to C3 as it is written: two calls that both miss the cache, on a
  fresh geocoder with a rate limit of one second. The first is entered at time 100 and
  returns a quarter of a second later; the second is entered a tenth of a second after
  that, at 100.35, and sleeps until 101 before it sends its request. The two calls
  start 0.35 seconds apart; their requests are one second apart.
\<close>

theorem call_starts_closer_than_rate_limit:
  "no_cache_hits (\<lambda>k. k) (\<lambda>q t. (if q = ''Paris, France'' then Location 48 2 else NotFound, 1 / 4))
     [(0, ''Paris'', ''France''), (1 / 10, ''Rome'', ''Italy'')]
     \<lparr>cache = \<lparr>files = Map.empty, writable = True\<rparr>, rate_limit = 1, last_request_time = None\<rparr>
     \<lparr>clock = 100, slept = [], requests = []\<rparr> \<and>
   geocode_call_starts (\<lambda>k. k)
     (\<lambda>q t. (if q = ''Paris, France'' then Location 48 2 else NotFound, 1 / 4))
     [(0, ''Paris'', ''France''), (1 / 10, ''Rome'', ''Italy'')]
     \<lparr>cache = \<lparr>files = Map.empty, writable = True\<rparr>, rate_limit = 1, last_request_time = None\<rparr>
     \<lparr>clock = 100, slept = [], requests = []\<rparr>
     = [100, 2007 / 20] \<and>
   \<not> spaced 1 [100, 2007 / 20] \<and>
   snd (geocode_calls (\<lambda>k. k)
     (\<lambda>q t. (if q = ''Paris, France'' then Location 48 2 else NotFound, 1 / 4))
     [(0, ''Paris'', ''France''), (1 / 10, ''Rome'', ''Italy'')]
     \<lparr>cache = \<lparr>files = Map.empty, writable = True\<rparr>, rate_limit = 1, last_request_time = None\<rparr>
     \<lparr>clock = 100, slept = [], requests = []\<rparr>)
     = \<lparr>clock = 405 / 4, slept = [13 / 20],
        requests = [(''Paris, France'', 100), (''Rome, Italy'', 101)]\<rparr>"
  by (simp add: geocode_def Let_def geocoder_rate_limit_wait_def time_sleep_def
      cache_get_def cache_set_def cache_key_to_filename_def geocoder_cache_key_def
      str_lower_def lower_char_def)

text \<open>
  C3, amended. Requests of one class are at least the rate limit apart, measured between
  the moments at which they are issued, which are the timestamps the limiter records;
  the calls themselves may be entered closer together, and the later one then sleeps.
  For the geocoder: in every sequence of calls on a fresh geocoder the times at which
  consecutive requests are sent to the provider are at least \<open>rate_limit\<close> apart, and
  when no call hits the cache every call sends one request. A call that misses the
  cache sends its request at time \<open>t\<close>, the later of the time of the call and the
  previous timestamp plus \<open>rate_limit\<close>; it records \<open>t\<close>, the time before the request's
  latency, as the new timestamp; a first call does not sleep. For the data fetcher:
  \<open>_rate_limit_wait\<close> returns at the later of the time it was called at and the last
  timestamp of that request class plus the limit of that class, records that time for
  the class, leaves the other class alone, and does not sleep when the class has no
  timestamp yet.
\<close>

theorem rate_limiter_lower_bound:
  "(last_request_time self = None \<and> requests w = [] \<longrightarrow>
      spaced (rate_limit self)
        (map snd (requests (snd (geocode_calls md5_hex geolocator calls self w)))) \<and>
      (no_cache_hits md5_hex geolocator calls self w \<longrightarrow>
         length (requests (snd (geocode_calls md5_hex geolocator calls self w)))
           = length calls)) \<and>
   (cache_get md5_hex (cache self) (geocoder_cache_key city country) = Inr None \<longrightarrow>
      (case geocode md5_hex geolocator city country self w of
         (res, self', w') \<Rightarrow>
           (\<exists>t. requests w' = requests w @ [(city @ '', '' @ country, t)] \<and>
                last_request_time self' = Some t \<and>
                clock w \<le> t \<and>
                clock w' = t + snd (geolocator (city @ '', '' @ country) t) \<and>
                (\<forall>t0. last_request_time self = Some t0 \<longrightarrow>
                   t = max (clock w) (t0 + rate_limit self)) \<and>
                (last_request_time self = None \<longrightarrow> t = clock w \<and> slept w' = slept w)))) \<and>
   (case fetcher_rate_limit_wait request_type fetcher wo of
      (fetcher', w') \<Rightarrow>
        clock wo \<le> clock w' \<and>
        (request_type = ''graph'' \<longrightarrow>
           last_graph_request fetcher' = Some (clock w') \<and>
           last_features_request fetcher' = last_features_request fetcher \<and>
           (last_graph_request fetcher = None \<longrightarrow> w' = wo) \<and>
           (\<forall>t0. last_graph_request fetcher = Some t0 \<longrightarrow>
              clock w' = max (clock wo) (t0 + graph_rate_limit fetcher))) \<and>
        (request_type \<noteq> ''graph'' \<longrightarrow>
           last_features_request fetcher' = Some (clock w') \<and>
           last_graph_request fetcher' = last_graph_request fetcher \<and>
           (last_features_request fetcher = None \<longrightarrow> w' = wo) \<and>
           (\<forall>t0. last_features_request fetcher = Some t0 \<longrightarrow>
              clock w' = max (clock wo) (t0 + features_rate_limit fetcher))))"
proof (intro conjI)
  show "last_request_time self = None \<and> requests w = [] \<longrightarrow>
      spaced (rate_limit self)
        (map snd (requests (snd (geocode_calls md5_hex geolocator calls self w)))) \<and>
      (no_cache_hits md5_hex geolocator calls self w \<longrightarrow>
         length (requests (snd (geocode_calls md5_hex geolocator calls self w)))
           = length calls)"
    using geocode_calls_spaced [of self w md5_hex geolocator calls]
      geocode_calls_count [of md5_hex geolocator calls self w]
    by simp
next
  show "cache_get md5_hex (cache self) (geocoder_cache_key city country) = Inr None \<longrightarrow>
      (case geocode md5_hex geolocator city country self w of
         (res, self', w') \<Rightarrow>
           (\<exists>t. requests w' = requests w @ [(city @ '', '' @ country, t)] \<and>
                last_request_time self' = Some t \<and>
                clock w \<le> t \<and>
                clock w' = t + snd (geolocator (city @ '', '' @ country) t) \<and>
                (\<forall>t0. last_request_time self = Some t0 \<longrightarrow>
                   t = max (clock w) (t0 + rate_limit self)) \<and>
                (last_request_time self = None \<longrightarrow> t = clock w \<and> slept w' = slept w)))"
  proof
    assume miss: "cache_get md5_hex (cache self) (geocoder_cache_key city country) = Inr None"
    obtain res self' w'
      where run: "geocode md5_hex geolocator city country self w = (res, self', w')"
      by (cases "geocode md5_hex geolocator city country self w")
    obtain self1 w1 where wait: "geocoder_rate_limit_wait self w = (self1, w1)"
      by (cases "geocoder_rate_limit_wait self w")
    note m = geocode_miss [OF miss wait run]
    note s = geocoder_rate_limit_wait_step [OF wait]
    have "\<exists>t. requests w' = requests w @ [(city @ '', '' @ country, t)] \<and>
                last_request_time self' = Some t \<and>
                clock w \<le> t \<and>
                clock w' = t + snd (geolocator (city @ '', '' @ country) t) \<and>
                (\<forall>t0. last_request_time self = Some t0 \<longrightarrow>
                   t = max (clock w) (t0 + rate_limit self)) \<and>
                (last_request_time self = None \<longrightarrow> t = clock w \<and> slept w' = slept w)"
      using m s(2) s(4) s(6) by (intro exI [of _ "clock w1"]) auto
    then show "case geocode md5_hex geolocator city country self w of
         (res, self', w') \<Rightarrow>
           (\<exists>t. requests w' = requests w @ [(city @ '', '' @ country, t)] \<and>
                last_request_time self' = Some t \<and>
                clock w \<le> t \<and>
                clock w' = t + snd (geolocator (city @ '', '' @ country) t) \<and>
                (\<forall>t0. last_request_time self = Some t0 \<longrightarrow>
                   t = max (clock w) (t0 + rate_limit self)) \<and>
                (last_request_time self = None \<longrightarrow> t = clock w \<and> slept w' = slept w))"
      by (simp only: run prod.case)
  qed
next
  obtain fetcher' w' where run: "fetcher_rate_limit_wait request_type fetcher wo = (fetcher', w')"
    by (cases "fetcher_rate_limit_wait request_type fetcher wo")
  show "case fetcher_rate_limit_wait request_type fetcher wo of
      (fetcher', w') \<Rightarrow>
        clock wo \<le> clock w' \<and>
        (request_type = ''graph'' \<longrightarrow>
           last_graph_request fetcher' = Some (clock w') \<and>
           last_features_request fetcher' = last_features_request fetcher \<and>
           (last_graph_request fetcher = None \<longrightarrow> w' = wo) \<and>
           (\<forall>t0. last_graph_request fetcher = Some t0 \<longrightarrow>
              clock w' = max (clock wo) (t0 + graph_rate_limit fetcher))) \<and>
        (request_type \<noteq> ''graph'' \<longrightarrow>
           last_features_request fetcher' = Some (clock w') \<and>
           last_graph_request fetcher' = last_graph_request fetcher \<and>
           (last_features_request fetcher = None \<longrightarrow> w' = wo) \<and>
           (\<forall>t0. last_features_request fetcher = Some t0 \<longrightarrow>
              clock w' = max (clock wo) (t0 + features_rate_limit fetcher)))"
  proof (cases "request_type = ''graph''")
    case True
    then show ?thesis
      using fetcher_rate_limit_wait_graph [of fetcher wo fetcher' w'] run
      by (simp only: run prod.case) auto
  next
    case False
    then show ?thesis
      using fetcher_rate_limit_wait_features [OF run False]
      by (simp only: run prod.case) auto
  qed
qed

theorem rate_limiter_lower_bound_witness:
  "no_cache_hits (\<lambda>k. k) (\<lambda>q t. (if q = ''Paris, France'' then Location 48 2 else NotFound, 1 / 4))
     [(0, ''Paris'', ''France''), (1 / 10, ''Rome'', ''Italy''), (3, ''Oslo'', ''Norway'')]
     \<lparr>cache = \<lparr>files = Map.empty, writable = True\<rparr>, rate_limit = 1, last_request_time = None\<rparr>
     \<lparr>clock = 100, slept = [], requests = []\<rparr> \<and>
   snd (geocode_calls (\<lambda>k. k) (\<lambda>q t. (if q = ''Paris, France'' then Location 48 2 else NotFound, 1 / 4))
     [(0, ''Paris'', ''France''), (1 / 10, ''Rome'', ''Italy''), (3, ''Oslo'', ''Norway'')]
     \<lparr>cache = \<lparr>files = Map.empty, writable = True\<rparr>, rate_limit = 1, last_request_time = None\<rparr>
     \<lparr>clock = 100, slept = [], requests = []\<rparr>)
     = \<lparr>clock = 209 / 2, slept = [13 / 20],
        requests = [(''Paris, France'', 100), (''Rome, Italy'', 101), (''Oslo, Norway'', 417 / 4)]\<rparr> \<and>
   spaced 1 [100, 101, 417 / 4] \<and>
   fetcher_rate_limit_wait ''graph''
     \<lparr>graph_rate_limit = 1 / 2, features_rate_limit = 3 / 10,
        last_graph_request = Some 10, last_features_request = None\<rparr>
     \<lparr>clock = 51 / 5, slept = [], requests = []\<rparr>
     = (\<lparr>graph_rate_limit = 1 / 2, features_rate_limit = 3 / 10,
          last_graph_request = Some (21 / 2), last_features_request = None\<rparr>,
        \<lparr>clock = 21 / 2, slept = [3 / 10], requests = []\<rparr>)"
  using rate_limiter_lower_bound [where
      self = "\<lparr>cache = \<lparr>files = Map.empty, writable = True\<rparr>, rate_limit = 1,
                last_request_time = None\<rparr>"
      and w = "\<lparr>clock = 100, slept = [], requests = []\<rparr>"
      and ?md5_hex = "\<lambda>k. k"
      and geolocator = "\<lambda>q t. (if q = ''Paris, France'' then Location 48 2 else NotFound, 1 / 4)"
      and calls = "[(0, ''Paris'', ''France''), (1 / 10, ''Rome'', ''Italy''), (3, ''Oslo'', ''Norway'')]"
      and city = "''Paris''" and country = "''France''" and request_type = "''graph''"
      and fetcher = "\<lparr>graph_rate_limit = 1 / 2, features_rate_limit = 3 / 10,
         last_graph_request = Some 10, last_features_request = None\<rparr>"
      and wo = "\<lparr>clock = 51 / 5, slept = [], requests = []\<rparr>"]
  by (simp add: geocode_def Let_def geocoder_rate_limit_wait_def time_sleep_def
      cache_get_def cache_set_def cache_key_to_filename_def geocoder_cache_key_def
      str_lower_def lower_char_def fetcher_rate_limit_wait_def)


section \<open>A cache hit bypasses the provider\<close>




section \<open>Generating all themes stops at the first failure\<close>

lemma generate_poster_disk:
  assumes "generate_poster self city country theme_name distance output_format country_label st
             = (r, st')"
  shows "set (disk st) \<subseteq> set (disk st')"
    and "r = Inr p \<Longrightarrow> p \<in> set (disk st')"
  using assms
  by (auto simp: generate_poster_def Let_def split: prod.splits sum.splits option.splits)

lemma generate_themes_loop_append:
  "generate_themes_loop self city country distance output_format country_label
       (xs @ ys) acc st =
     (case generate_themes_loop self city country distance output_format country_label
             xs acc st of
        (Inl e, st') \<Rightarrow> (Inl e, st')
      | (Inr acc', st') \<Rightarrow>
          generate_themes_loop self city country distance output_format country_label
            ys acc' st')"
  by (induction xs arbitrary: acc st) (auto split: prod.splits sum.splits)

lemma generate_themes_loop_paths:
  assumes "generate_themes_loop self city country distance output_format country_label
             xs acc st = (Inr paths, st')"
      and "set acc \<subseteq> set (disk st)"
  shows "set paths \<subseteq> set (disk st') \<and> length paths = length acc + length xs"
  using assms
proof (induction xs arbitrary: acc st)
  case Nil
  then show ?case by simp
next
  case (Cons x xs)
  obtain r st1 where g: "generate_poster self city country x distance output_format
      country_label st = (r, st1)"
    by (cases "generate_poster self city country x distance output_format country_label st")
  show ?case
  proof (cases r)
    case (Inl e)
    with Cons.prems(1) g show ?thesis by simp
  next
    case (Inr p)
    with Cons.prems(1) g
    have loop: "generate_themes_loop self city country distance output_format country_label
        xs (acc @ [p]) st1 = (Inr paths, st')"
      by simp
    have "set (acc @ [p]) \<subseteq> set (disk st1)"
      using generate_poster_disk [OF g] Inr Cons.prems(2) by auto
    with loop have "set paths \<subseteq> set (disk st') \<and> length paths = length (acc @ [p]) + length xs"
      by (rule Cons.IH)
    then show ?thesis by simp
  qed
qed

text \<open>
  C9. \<open>generate_all_themes\<close> generates the posters of the themes in the order of the list
  \<open>list_themes\<close> returns (sorted by file name). When the themes before some theme have
  generated their posters and that theme's \<open>generate_poster\<close> raises, the exception is
  the result of \<open>generate_all_themes\<close>: no list of paths is returned, the state is the one
  the failing call left (no later theme is attempted, whatever the later themes are), and
  the posters written for the earlier themes are on disk.
\<close>

theorem generate_all_themes_stops_at_failure:
  assumes "list_themes (theme_manager self) = earlier @ theme_name # later"
      and "generate_themes_loop self city country distance output_format country_label
             earlier [] st = (Inr paths, st1)"
      and "generate_poster self city country theme_name distance output_format country_label st1
             = (Inl e, st2)"
  shows "generate_all_themes self city country distance output_format country_label st
           = (Inl e, st2) \<and>
         sorted (map (\<lambda>n. n @ ''.json'') (list_themes (theme_manager self))) \<and>
         length paths = length earlier \<and>
         set paths \<subseteq> set (disk st1) \<and>
         set paths \<subseteq> set (disk st2)"
proof -
  have res: "generate_all_themes self city country distance output_format country_label st
      = (Inl e, st2)"
    using assms by (simp add: generate_all_themes_def generate_themes_loop_append)
  have srt: "sorted (map (\<lambda>n. n @ ''.json'') (list_themes (theme_manager self)))"
  proof -
    have "map (\<lambda>n. n @ ''.json'') (list_themes (theme_manager self))
        = map (\<lambda>(stem, f). stem @ ''.json'')
            (sort_key (\<lambda>(stem, f). stem @ ''.json'') (themes_dir (theme_manager self)))"
      by (simp add: list_themes_def case_prod_beta)
    then show ?thesis by simp
  qed
  have p1: "set paths \<subseteq> set (disk st1) \<and> length paths = length earlier"
    using generate_themes_loop_paths [OF assms(2)] by simp
  have "set (disk st1) \<subseteq> set (disk st2)"
    using generate_poster_disk(1) [OF assms(3)] .
  with res srt p1 show ?thesis by auto
qed
theorem generate_all_themes_stops_at_failure_witness:
  "list_themes \<lparr>themes_dir = [(''c'', Malformed), (''a'', Malformed), (''b'', Malformed)],
                stdout_ok = True\<rparr> = [''a'', ''b'', ''c''] \<and>
   generate_all_themes
     \<lparr>geocoder = (\<lambda>city country s. (Inr (48, 2), s @ [''geocode''])),
      fetch_graph = (\<lambda>point d s. (Inr (Some ()), s @ [''graph''])),
      fetch_features = (\<lambda>point d t n s. (Inr (None :: unit option), s @ [n])),
      theme_manager = \<lparr>themes_dir = [(''c'', Malformed), (''a'', Malformed), (''b'', Malformed)],
                         stdout_ok = True\<rparr>,
      renderer = (\<lambda>g wa pa city country point th path fmt label s.
         if path = ''posters/paris_b_T.png'' then (Inl (RuntimeError ''render''), s @ [''failed''])
         else (Inr (), s @ [''rendered''])),
      output_dir = ''posters'',
      now_text = (\<lambda>s. ''T'')\<rparr>
     ''Paris'' ''France'' 10000 ''png'' None \<lparr>services = [], disk = []\<rparr>
   = (Inl (RuntimeError ''render''),
      \<lparr>services = [''geocode'', ''graph'', ''water'', ''parks'', ''rendered'',
                   ''geocode'', ''graph'', ''water'', ''parks'', ''failed''],
         disk = [''posters/paris_a_T.png'']\<rparr>)"
  using generate_all_themes_stops_at_failure [where
      self = "\<lparr>geocoder = (\<lambda>city country s. (Inr (48, 2), s @ [''geocode''])),
        fetch_graph = (\<lambda>point d s. (Inr (Some ()), s @ [''graph''])),
        fetch_features = (\<lambda>point d t n s. (Inr (None :: unit option), s @ [n])),
        theme_manager = \<lparr>themes_dir = [(''c'', Malformed), (''a'', Malformed), (''b'', Malformed)],
                         stdout_ok = True\<rparr>,
        renderer = (\<lambda>g wa pa city country point th path fmt label s.
           if path = ''posters/paris_b_T.png'' then (Inl (RuntimeError ''render''), s @ [''failed''])
           else (Inr (), s @ [''rendered''])),
        output_dir = ''posters'',
        now_text = (\<lambda>s. ''T'')\<rparr>"
      and earlier = "[''a'']" and theme_name = "''b''" and later = "[''c'']"
      and city = "''Paris''" and country = "''France''" and distance = 10000
      and output_format = "''png''" and country_label = None
      and st = "\<lparr>services = [], disk = []\<rparr>"
      and paths = "[''posters/paris_a_T.png'']"
      and ?st1.0 = "\<lparr>services = [''geocode'', ''graph'', ''water'', ''parks'', ''rendered''],
                    disk = [''posters/paris_a_T.png'']\<rparr>"
      and e = "RuntimeError ''render''"
      and ?st2.0 = "\<lparr>services = [''geocode'', ''graph'', ''water'', ''parks'', ''rendered'',
                      ''geocode'', ''graph'', ''water'', ''parks'', ''failed''],
                    disk = [''posters/paris_a_T.png'']\<rparr>"]
  by (simp add: Let_def list_themes_def generate_poster_def generate_filename_def load_theme_def
      load_theme_try_def theme_path_exists_def print_text_def from_json_def str_lower_def
      lower_char_def)

end
